theory Spec2Isabelle
  imports Complex_Main
begin

section \<open>Data model (src/models)\<close>

text \<open>
  Documents are records. An ObjectId is a natural number; a Date is the number of
  milliseconds since the epoch, an \<open>int\<close>. Stock quantities are JavaScript Numbers that
  hold integers here (\<open>int\<close>; a double is exact on them below \<open>2^53\<close>). Prices, values and confidence scores are doubles, kept as
  the rational each double stands for; \<open>roundDouble\<close> below rounds where the code does.
  The \<open>Mixed\<close> metadata of anomalies and alerts is accepted by every schema whatever it
  holds and is read by no function below: it is left out of the records.
\<close>

type_synonym objectId = nat

record product =
  p_id :: objectId
  p_name :: string
  p_category :: string
  p_quantity :: int
  p_price :: rat
  p_expiryDate :: "int option"
  p_minimumStock :: int

record transaction =
  t_productId :: objectId
  t_type :: string
  t_quantity :: int
  t_previousQuantity :: int
  t_newQuantity :: int
  t_reason :: "string option"
  t_userId :: "string option"
  t_createdAt :: int

text \<open>An anomaly as a detector pushes it (a plain object), and as the store holds it.\<close>

record candidate =
  c_productId :: "objectId option"
  c_type :: string
  c_severity :: string
  c_description :: string
  c_aiConfidence :: rat

record anomaly =
  a_id :: objectId
  a_productId :: "objectId option"
  a_type :: string
  a_severity :: string
  a_description :: string
  a_aiConfidence :: rat
  a_resolved :: bool
  a_createdAt :: int

record alert =
  al_type :: string
  al_title :: string
  al_message :: string
  al_severity :: string
  al_read :: bool
  al_productId :: "objectId option"
  al_createdAt :: int

text \<open>The four collections, each in insertion order.\<close>

record store =
  products :: "product list"
  transactions :: "transaction list"
  anomalies :: "anomaly list"
  alerts :: "alert list"

subsection \<open>Schema validation\<close>

definition transactionTypes :: "string list" where
  "transactionTypes = [''sale'', ''restock'', ''adjustment'', ''expiry'', ''damage'', ''purchase'']"

definition anomalyTypes :: "string list" where
  "anomalyTypes = [''low_stock'', ''unusual_pattern'', ''expiry_warning'', ''high_variance'',
     ''stock_discrepancy'', ''potential_theft'', ''unauthorized_access_pattern'', ''security'']"

definition anomalySeverities :: "string list" where
  "anomalySeverities = [''low'', ''medium'', ''high'', ''critical'']"

definition alertTypes :: "string list" where
  "alertTypes = [''low_stock'', ''expiry'', ''anomaly'', ''system'', ''security'']"

definition alertSeverities :: "string list" where
  "alertSeverities = [''info'', ''warning'', ''error'', ''critical'']"

text \<open>transactionSchema: \<open>type\<close> is required and one of the enum; the numbers are present.\<close>

definition validateTransaction :: "transaction \<Rightarrow> bool" where
  "validateTransaction t = (t_type t \<in> set transactionTypes)"

text \<open>productSchema, the path a stock change modifies: \<open>quantity\<close> has \<open>min: 0\<close>.\<close>

definition validateProduct :: "product \<Rightarrow> bool" where
  "validateProduct p = (0 \<le> p_quantity p)"

text \<open>
  anomalySchema: \<open>productId\<close>, \<open>type\<close>, \<open>severity\<close> and \<open>description\<close> are required (a
  required string is not empty), \<open>type\<close> and \<open>severity\<close> are in their enums, \<open>aiConfidence\<close>
  lies between 0 and 1.
\<close>

definition validateAnomaly :: "candidate \<Rightarrow> bool" where
  "validateAnomaly c =
     (c_productId c \<noteq> None \<and>
      c_type c \<in> set anomalyTypes \<and>
      c_severity c \<in> set anomalySeverities \<and>
      c_description c \<noteq> [] \<and>
      0 \<le> c_aiConfidence c \<and> c_aiConfidence c \<le> 1)"

definition validateAlert :: "alert \<Rightarrow> bool" where
  "validateAlert a =
     (al_type a \<in> set alertTypes \<and> al_title a \<noteq> [] \<and> al_message a \<noteq> [] \<and>
      al_severity a \<in> set alertSeverities)"

section \<open>Stock mutation: POST /api/products/:id/stock (src/index.js)\<close>

record stockRequest =
  r_id :: objectId
  r_quantity :: int
  r_type :: string
  r_reason :: "string option"
  r_userId :: "string option"

datatype response = NotFound | BadRequest | Ok product transaction

definition findById :: "product list \<Rightarrow> objectId \<Rightarrow> product option" where
  "findById ps i = find (\<lambda>p. p_id p = i) ps"

definition saveProduct :: "product \<Rightarrow> product list \<Rightarrow> product list" where
  "saveProduct p ps = map (\<lambda>q. if p_id q = p_id p then p else q) ps"

definition quantityChange :: "string \<Rightarrow> int \<Rightarrow> int" where
  "quantityChange ty quantity =
     (if ty = ''sale'' \<or> ty = ''expiry'' \<or> ty = ''damage'' then - \<bar>quantity\<bar> else \<bar>quantity\<bar>)"

text \<open>\<open>req.headers['user-id'] || 'system'\<close>: a missing or empty header gives \<open>'system'\<close>.\<close>

definition headerUserId :: "string option \<Rightarrow> string" where
  "headerUserId h = (case h of None \<Rightarrow> ''system'' | Some u \<Rightarrow> if u = [] then ''system'' else u)"

text \<open>
  The handler. A failing \<open>transaction.save()\<close> throws before anything is written; a
  failing \<open>product.save()\<close> throws after the transaction is stored. Both end in the
  \<open>catch\<close>, status 400.
\<close>

definition postStock :: "int \<Rightarrow> stockRequest \<Rightarrow> store \<Rightarrow> response \<times> store" where
  "postStock now req s =
     (case findById (products s) (r_id req) of
        None \<Rightarrow> (NotFound, s)
      | Some product \<Rightarrow>
          (let previousQuantity = p_quantity product;
               change = quantityChange (r_type req) (r_quantity req);
               newQuantity = max 0 (previousQuantity + change);
               tr = \<lparr> t_productId = r_id req, t_type = r_type req, t_quantity = change,
                      t_previousQuantity = previousQuantity, t_newQuantity = newQuantity,
                      t_reason = r_reason req, t_userId = Some (headerUserId (r_userId req)),
                      t_createdAt = now \<rparr>
           in if \<not> validateTransaction tr then (BadRequest, s)
              else
                (let s1 = s\<lparr> transactions := transactions s @ [tr] \<rparr>;
                     product' = product\<lparr> p_quantity := newQuantity \<rparr>
                 in if \<not> validateProduct product' then (BadRequest, s1)
                    else (Ok product' tr, s1\<lparr> products := saveProduct product' (products s1) \<rparr>))))"

text \<open>
  The same route in src/routes/products.js, a file that index.js never loads: only
  \<open>sale\<close> decreases stock there.
\<close>

definition quantityChange_routes :: "string \<Rightarrow> int \<Rightarrow> int" where
  "quantityChange_routes ty quantity = (if ty = ''sale'' then - \<bar>quantity\<bar> else \<bar>quantity\<bar>)"

text \<open>
  \<open>stockUpdateValidation\<close> of src/utils/validation.js, which no route applies. The
  chain of \<open>reason\<close> trims before it measures; \<open>trim\<close> strips the white space of
  \<open>\\s\<close> that ASCII has (tab to carriage return, and the space).
\<close>

definition isSpace :: "char \<Rightarrow> bool" where
  "isSpace ch = (ch = CHR '' '' \<or> (9 \<le> (of_char ch :: nat) \<and> (of_char ch :: nat) \<le> 13))"

definition trim :: "string \<Rightarrow> string" where
  "trim str = rev (dropWhile isSpace (rev (dropWhile isSpace str)))"

definition stockUpdateValidation :: "stockRequest \<Rightarrow> bool" where
  "stockUpdateValidation req =
     (1 \<le> r_quantity req \<and>
      r_type req \<in> set [''sale'', ''restock'', ''adjustment'', ''expiry'', ''damage''] \<and>
      (case r_reason req of None \<Rightarrow> True | Some r \<Rightarrow> length (trim r) \<le> 200))"

section \<open>Rule engine: EnhancedAIAnomalyDetector (src/index.js)\<close>

text \<open>
  A detection pass reads the clock many times within a few milliseconds; the model reads
  it once, \<open>e_now\<close>. \<open>getHours\<close> is the hour in the server's time zone, a fixed offset
  \<open>e_tzOffset\<close> from UTC in milliseconds. Every detector wraps its body in
  \<open>try\<close>/\<open>catch\<close>: here the store always answers and every field is present, so no body
  throws and the \<open>catch\<close> blocks are not reached. The one throwing call of a pass is
  \<open>Anomaly.insertMany\<close>, whose error is a value below.
\<close>

record env =
  e_now :: int
  e_tzOffset :: int

definition dayMs :: int where
  "dayMs = 24 * 60 * 60 * 1000"

subsection \<open>Doubles\<close>

text \<open>
  A Number is an IEEE 754 double. \<open>roundDouble x\<close> is the double nearest to the rational
  \<open>x\<close>, ties to the even mantissa, for magnitudes in the normal range (no overflow, no
  subnormals): the loop scales numerator or denominator by 2 until the quotient has 53
  bits; its fuel exceeds the exponent range. A product, a sum or a decimal literal of the
  code is the rounded exact result.
\<close>

fun normalise :: "nat \<Rightarrow> int \<Rightarrow> int \<Rightarrow> int \<Rightarrow> int \<times> int \<times> int" where
  "normalise fuel p q e =
     (if fuel = 0 then (p, q, e)
      else if p < 4503599627370496 * q then normalise (fuel - 1) (2 * p) q (e - 1)
      else if 9007199254740992 * q \<le> p then normalise (fuel - 1) p (2 * q) (e + 1)
      else (p, q, e))"

declare normalise.simps [simp del]

definition roundHalfEven :: "int \<Rightarrow> int \<Rightarrow> int" where
  "roundHalfEven p q =
     (let f = p div q; r = p mod q
      in if 2 * r < q then f else if q < 2 * r then f + 1 else if even f then f else f + 1)"

definition pow2 :: "int \<Rightarrow> rat" where
  "pow2 e = (if 0 \<le> e then of_int (2 ^ nat e) else 1 / of_int (2 ^ nat (- e)))"

definition roundDouble :: "rat \<Rightarrow> rat" where
  "roundDouble x =
     (if x = 0 then 0
      else (let (p, q) = quotient_of \<bar>x\<bar>;
                (p', q', e) = normalise 2200 p q 0
            in sgn x * of_int (roundHalfEven p' q') * pow2 e))"

subsection \<open>Rendering numbers in template strings\<close>

function showNat :: "nat \<Rightarrow> string" where
  "showNat n = (if n < 10 then [char_of (48 + n)] else showNat (n div 10) @ [char_of (48 + n mod 10)])"
  by pat_completeness auto
termination
  by (relation "measure id") auto

declare showNat.simps [simp del]

definition showInt :: "int \<Rightarrow> string" where
  "showInt i = (if i < 0 then ''-'' @ showNat (nat (- i)) else showNat (nat i))"

text \<open>
  \<open>Number.prototype.toFixed\<close> of the double whose value is \<open>x\<close>, below 1e21: the digits of
  the nearest multiple of \<open>10^-d\<close>, the larger one at a tie.
\<close>

definition toFixed :: "nat \<Rightarrow> rat \<Rightarrow> string" where
  "toFixed d x =
     (let n = nat \<lfloor>\<bar>x\<bar> * 10 ^ d + 1 / 2\<rfloor>;
          ds = showNat n;
          padded = replicate (d + 1 - length ds) (CHR ''0'') @ ds;
          k = length padded - d
      in (if x < 0 then ''-'' else []) @ take k padded @
         (if d = 0 then [] else ''.'' @ drop k padded))"

subsection \<open>Queries\<close>

text \<open>
  The filter of an \<open>Anomaly.findOne\<close> call. The detectors thread a context: the
  \<open>anomalies\<close> array they push to, and the log of the anomaly lookups they issue.
\<close>

record anomalyFilter =
  f_productId :: "objectId option"
  f_type :: string
  f_resolved :: "bool option"
  f_createdAtGte :: "int option"

definition matchesAnomaly :: "anomalyFilter \<Rightarrow> anomaly \<Rightarrow> bool" where
  "matchesAnomaly f a =
     (a_productId a = f_productId f \<and> a_type a = f_type f \<and>
      (case f_resolved f of None \<Rightarrow> True | Some r \<Rightarrow> a_resolved a = r) \<and>
      (case f_createdAtGte f of None \<Rightarrow> True | Some t \<Rightarrow> t \<le> a_createdAt a))"

definition Anomaly_findOne :: "store \<Rightarrow> anomalyFilter \<Rightarrow> anomaly option" where
  "Anomaly_findOne s f = find (matchesAnomaly f) (anomalies s)"

record ctx =
  batch :: "candidate list"
  lookups :: "anomalyFilter list"

definition logLookup :: "anomalyFilter \<Rightarrow> ctx \<Rightarrow> ctx" where
  "logLookup f c = c\<lparr> lookups := lookups c @ [f] \<rparr>"

definition push :: "candidate \<Rightarrow> ctx \<Rightarrow> ctx" where
  "push a c = c\<lparr> batch := batch c @ [a] \<rparr>"

text \<open>\<open>Transaction.find({ productId, createdAt: { $gte: since } })\<close>, in natural order.\<close>

definition Transaction_find :: "store \<Rightarrow> objectId \<Rightarrow> int \<Rightarrow> transaction list" where
  "Transaction_find s pid since =
     filter (\<lambda>t. t_productId t = pid \<and> since \<le> t_createdAt t) (transactions s)"

text \<open>\<open>.sort({ createdAt: 1 })\<close>; equal timestamps keep their natural order here.\<close>

definition sortByCreatedAt :: "transaction list \<Rightarrow> transaction list" where
  "sortByCreatedAt ts = sort_key t_createdAt ts"

subsection \<open>detectLowStock, detectExpiryWarnings\<close>

definition detectLowStock :: "store \<Rightarrow> product \<Rightarrow> ctx \<Rightarrow> ctx" where
  "detectLowStock s product c =
     (if p_quantity product \<le> p_minimumStock product then
        (let f = \<lparr> f_productId = Some (p_id product), f_type = ''low_stock'',
                    f_resolved = Some False, f_createdAtGte = None \<rparr>;
             existingAnomaly = Anomaly_findOne s f;
             c1 = logLookup f c
         in if existingAnomaly = None then
              push \<lparr> c_productId = Some (p_id product), c_type = ''low_stock'',
                     c_severity = (if p_quantity product = 0 then ''critical'' else ''high''),
                     c_description = ''Stock critically low: '' @ showInt (p_quantity product) @
                                     '' units remaining'',
                     c_aiConfidence = roundDouble (95 / 100) \<rparr> c1
            else c1)
      else c)"

text \<open>
  \<open>Math.ceil\<close> of the quotient of two integers below \<open>2^53\<close>: a quotient that is not whole
  lies at least \<open>1 / 86400000\<close> from the next integer, more than the rounding of the
  double moves it, so the ceiling is that of the exact quotient.
\<close>

definition daysUntilExpiry :: "env \<Rightarrow> int \<Rightarrow> int" where
  "daysUntilExpiry e expiryDate = \<lceil>(of_int (expiryDate - e_now e) :: rat) / of_int (1000 * 60 * 60 * 24)\<rceil>"

definition detectExpiryWarnings :: "env \<Rightarrow> store \<Rightarrow> product \<Rightarrow> ctx \<Rightarrow> ctx" where
  "detectExpiryWarnings e s product c =
     (case p_expiryDate product of
        None \<Rightarrow> c
      | Some expiryDate \<Rightarrow>
          (let days = daysUntilExpiry e expiryDate
           in if days \<le> 30 \<and> days > 0 then
                (let f = \<lparr> f_productId = Some (p_id product), f_type = ''expiry_warning'',
                            f_resolved = Some False, f_createdAtGte = None \<rparr>;
                     existingAnomaly = Anomaly_findOne s f;
                     c1 = logLookup f c
                 in if existingAnomaly = None then
                      push \<lparr> c_productId = Some (p_id product), c_type = ''expiry_warning'',
                             c_severity = (if days \<le> 7 then ''high'' else ''medium''),
                             c_description = ''Product expires in '' @ showInt days @ '' days'',
                             c_aiConfidence = roundDouble (90 / 100) \<rparr> c1
                    else c1)
              else c))"

subsection \<open>detectPotentialTheft\<close>

record loss =
  l_date :: int
  l_expectedStock :: int
  l_actualStock :: int
  l_discrepancy :: int
  l_current :: bool

text \<open>The \<open>for\<close> loop over the ledger, carrying \<open>calculatedStock\<close> and \<open>unexplainedLosses\<close>.\<close>

fun ledgerWalk :: "int \<Rightarrow> loss list \<Rightarrow> transaction list \<Rightarrow> loss list" where
  "ledgerWalk calculatedStock unexplainedLosses [] = unexplainedLosses"
| "ledgerWalk calculatedStock unexplainedLosses (tr # rest) =
     (let calc = calculatedStock + t_quantity tr;
          discrepancy = t_newQuantity tr - calc;
          losses' =
            (if \<bar>calc - t_newQuantity tr\<bar> > 0 \<and> discrepancy < - 2 then
               unexplainedLosses @
                 [\<lparr> l_date = t_createdAt tr, l_expectedStock = calc,
                     l_actualStock = t_newQuantity tr, l_discrepancy = \<bar>discrepancy\<bar>,
                     l_current = False \<rparr>]
             else unexplainedLosses)
      in ledgerWalk (t_newQuantity tr) losses' rest)"

text \<open>
  The losses of a non-empty ledger: the walk, then the comparison of the live quantity
  with the last transaction. An empty ledger has none (the detector returns before).
\<close>

definition unexplainedLossesOf :: "env \<Rightarrow> product \<Rightarrow> transaction list \<Rightarrow> loss list" where
  "unexplainedLossesOf e product txs =
     (case txs of
        [] \<Rightarrow> []
      | first # _ \<Rightarrow>
          (let walked = ledgerWalk (t_previousQuantity first) [] txs;
               lastTransaction = last txs;
               currentDiscrepancy = t_newQuantity lastTransaction - p_quantity product
           in if p_quantity product < t_newQuantity lastTransaction \<and> currentDiscrepancy > 2 then
                walked @
                  [\<lparr> l_date = e_now e, l_expectedStock = t_newQuantity lastTransaction,
                      l_actualStock = p_quantity product, l_discrepancy = currentDiscrepancy,
                      l_current = True \<rparr>]
              else walked))"

definition calculateTheftConfidence :: "env \<Rightarrow> loss list \<Rightarrow> int \<Rightarrow> rat" where
  "calculateTheftConfidence e unexplainedLosses totalLoss =
     (let tenth = roundDouble (1 / 10);
          c0 = 5 / 10;
          c1 = (if length unexplainedLosses > 2 then roundDouble (c0 + tenth) else c0);
          c2 = (if length unexplainedLosses > 5 then roundDouble (c1 + tenth) else c1);
          c3 = (if totalLoss > 10 then roundDouble (c2 + tenth) else c2);
          c4 = (if totalLoss > 25 then roundDouble (c3 + tenth) else c3);
          recentLosses = filter (\<lambda>l. l_date l > e_now e - 7 * dayMs) unexplainedLosses;
          c5 = (if length recentLosses > 0 then roundDouble (c4 + tenth) else c4)
      in min c5 (roundDouble (95 / 100)))"

definition totalLossOf :: "loss list \<Rightarrow> int" where
  "totalLossOf unexplainedLosses = foldl (\<lambda>sum l. sum + l_discrepancy l) 0 unexplainedLosses"

text \<open>The product schema has no \<open>currency\<close> path, so \<open>product.currency || 'USD'\<close> is \<open>'USD'\<close>.\<close>

definition detectPotentialTheft :: "env \<Rightarrow> store \<Rightarrow> product \<Rightarrow> ctx \<Rightarrow> ctx" where
  "detectPotentialTheft e s product c =
     (let thirtyDaysAgo = e_now e - 30 * dayMs;
          txs = sortByCreatedAt (Transaction_find s (p_id product) thirtyDaysAgo)
      in if length txs = 0 then c
         else
           (let unexplainedLosses = unexplainedLossesOf e product txs
            in if length unexplainedLosses > 0 then
                 (let totalLoss = totalLossOf unexplainedLosses;
                      lossValue = roundDouble (of_int totalLoss * roundDouble (p_price product));
                      f = \<lparr> f_productId = Some (p_id product), f_type = ''potential_theft'',
                             f_resolved = Some False, f_createdAtGte = Some (e_now e - dayMs) \<rparr>;
                      existingAnomaly = Anomaly_findOne s f;
                      c1 = logLookup f c
                  in if existingAnomaly \<noteq> None \<and> totalLoss > 3 then
                       push \<lparr> c_productId = Some (p_id product), c_type = ''potential_theft'',
                              c_severity = (if lossValue > 500 then ''critical''
                                            else if totalLoss > 10 then ''high'' else ''medium''),
                              c_description = ''Potential theft detected: '' @ showInt totalLoss @
                                 '' units ('' @ toFixed 2 lossValue @ '' USD) unaccounted for'',
                              c_aiConfidence = calculateTheftConfidence e unexplainedLosses totalLoss \<rparr> c1
                     else c1)
               else c))"

subsection \<open>detectShrinkagePatterns\<close>

definition sumAbsQuantity :: "transaction list \<Rightarrow> int" where
  "sumAbsQuantity ts = foldl (\<lambda>sum t. sum + \<bar>t_quantity t\<bar>) 0 ts"

definition expectedCurrentStock :: "transaction list \<Rightarrow> int" where
  "expectedCurrentStock txs =
     (let sales = filter (\<lambda>t. t_type t = ''sale'') txs;
          restocks = filter (\<lambda>t. t_type t = ''restock'' \<or> t_type t = ''purchase'') txs;
          totalSales = sumAbsQuantity sales;
          totalRestocks = sumAbsQuantity restocks
      in (case txs of [] \<Rightarrow> 0 | t0 # _ \<Rightarrow> t_previousQuantity t0) + totalRestocks - totalSales)"

text \<open>
  The double \<open>shrinkage / 90\<close> of an integer shrinkage lies on the same side of 0.5 and of
  2 as the exact quotient (45 / 90 and 180 / 90 are exact, and rounding is monotone), so
  the two comparisons are made on the exact quotient.
\<close>

definition detectShrinkagePatterns :: "env \<Rightarrow> store \<Rightarrow> product \<Rightarrow> ctx \<Rightarrow> ctx" where
  "detectShrinkagePatterns e s product c =
     (let ninetyDaysAgo = e_now e - 90 * dayMs;
          txs = sortByCreatedAt (Transaction_find s (p_id product) ninetyDaysAgo)
      in if length txs < 10 then c
         else
           (let actualCurrentStock = p_quantity product;
                shrinkage = expectedCurrentStock txs - actualCurrentStock;
                shrinkageRate = (of_int shrinkage :: rat) / 90
            in if shrinkageRate > 5 / 10 \<and> shrinkage > 5 then
                 (let f = \<lparr> f_productId = Some (p_id product), f_type = ''inventory_shrinkage'',
                             f_resolved = None, f_createdAtGte = Some (e_now e - 7 * dayMs) \<rparr>;
                      existingAnomaly = Anomaly_findOne s f;
                      c1 = logLookup f c
                  in if existingAnomaly = None then
                       push \<lparr> c_productId = Some (p_id product), c_type = ''inventory_shrinkage'',
                              c_severity = (if shrinkageRate > 2 then ''high'' else ''medium''),
                              c_description = ''Inventory shrinkage detected: '' @
                                 toFixed 1 (of_int shrinkage) @ '' units lost over 90 days ('' @
                                 toFixed 2 (roundDouble shrinkageRate) @ '' units/day)'',
                              c_aiConfidence = roundDouble (80 / 100) \<rparr> c1
                     else c1)
               else c))"

subsection \<open>detectUnauthorizedAccess\<close>

definition getHours :: "env \<Rightarrow> int \<Rightarrow> nat" where
  "getHours e t = nat (((t + e_tzOffset e) div (60 * 60 * 1000)) mod 24)"

text \<open>\<open>transaction.userId || 'unknown'\<close>\<close>

definition actorOf :: "transaction \<Rightarrow> string" where
  "actorOf tr = (case t_userId tr of None \<Rightarrow> ''unknown'' | Some u \<Rightarrow> if u = [] then ''unknown'' else u)"

text \<open>
  \<open>userActivity\<close> is a plain object \<open>{}\<close>: its own properties, in insertion order, above
  \<open>Object.prototype\<close>. A property holds a number or, once an inherited function has been
  read and incremented, a string.
\<close>

datatype jsValue = Num nat | Str string

definition prototypeFunctions :: "string list" where
  "prototypeFunctions = [''constructor'', ''__defineGetter__'', ''__defineSetter__'',
     ''hasOwnProperty'', ''__lookupGetter__'', ''__lookupSetter__'', ''isPrototypeOf'',
     ''propertyIsEnumerable'', ''toString'', ''valueOf'', ''toLocaleString'']"

text \<open>What \<open>String(f)\<close> gives for the native function that \<open>Object.prototype\<close> has under a key.\<close>

definition functionSource :: "string \<Rightarrow> string" where
  "functionSource k =
     ''function '' @ (if k = ''constructor'' then ''Object'' else k) @ ''() { [native code] }''"

text \<open>\<open>(v || 0) + 1\<close> for an own value: a number is incremented, a string gets a \<open>1\<close> appended.\<close>

fun plusOne :: "jsValue \<Rightarrow> jsValue" where
  "plusOne (Num n) = Num (n + 1)"
| "plusOne (Str str) = (if str = [] then Num 1 else Str (str @ ''1''))"

text \<open>
  \<open>userActivity[userId] = (userActivity[userId] || 0) + 1\<close>. With no own property the
  read falls through to \<open>Object.prototype\<close>: an inherited function is truthy and adding 1
  to it concatenates its source text; \<open>__proto__\<close> reads the prototype object, and its
  setter ignores the string assigned, so no property is created; any other key reads
  \<open>undefined\<close> and starts at 1.
\<close>

fun bumpUser :: "string \<Rightarrow> (string \<times> jsValue) list \<Rightarrow> (string \<times> jsValue) list" where
  "bumpUser u [] =
     (if u = ''__proto__'' then []
      else if u \<in> set prototypeFunctions then [(u, Str (functionSource u @ ''1''))]
      else [(u, Num 1)])"
| "bumpUser u ((k, v) # rest) = (if k = u then (k, plusOne v) # rest else (k, v) # bumpUser u rest)"

text \<open>The \<open>forEach\<close> that fills \<open>hourlyActivity\<close> and \<open>userActivity\<close>.\<close>

fun tally :: "env \<Rightarrow> nat list \<Rightarrow> (string \<times> jsValue) list \<Rightarrow> transaction list \<Rightarrow>
    nat list \<times> (string \<times> jsValue) list" where
  "tally e hourlyActivity userActivity [] = (hourlyActivity, userActivity)"
| "tally e hourlyActivity userActivity (tr # rest) =
     (let hour = getHours e (t_createdAt tr)
      in tally e (hourlyActivity[hour := hourlyActivity ! hour + 1])
           (bumpUser (actorOf tr) userActivity) rest)"

text \<open>
  \<open>Object.entries\<close>: the keys that are array indices (canonical decimal strings up to
  \<open>2^32 - 2\<close>) in ascending order, then the other keys in insertion order.
\<close>

definition isDigit :: "char \<Rightarrow> bool" where
  "isDigit ch = (48 \<le> (of_char ch :: nat) \<and> (of_char ch :: nat) \<le> 57)"

definition indexValue :: "string \<Rightarrow> nat" where
  "indexValue k = foldl (\<lambda>n ch. 10 * n + ((of_char ch :: nat) - 48)) 0 k"

definition isArrayIndex :: "string \<Rightarrow> bool" where
  "isArrayIndex k =
     (k \<noteq> [] \<and> list_all isDigit k \<and> (length k = 1 \<or> hd k \<noteq> CHR ''0'') \<and>
      indexValue k \<le> 4294967294)"

definition Object_entries :: "(string \<times> jsValue) list \<Rightarrow> (string \<times> jsValue) list" where
  "Object_entries obj =
     sort_key (\<lambda>x. indexValue (fst x)) (filter (\<lambda>x. isArrayIndex (fst x)) obj) @
     filter (\<lambda>x. \<not> isArrayIndex (fst x)) obj"

text \<open>
  \<open>count > 10\<close>. A string is converted to a number first; every string stored above
  begins with \<open>function\<close>, converts to NaN, and NaN compares false.
\<close>

fun greaterThan10 :: "jsValue \<Rightarrow> bool" where
  "greaterThan10 (Num n) = (n > 10)"
| "greaterThan10 (Str str) = False"

fun showValue :: "jsValue \<Rightarrow> string" where
  "showValue (Num n) = showNat n"
| "showValue (Str str) = str"

definition slice :: "nat \<Rightarrow> nat \<Rightarrow> 'a list \<Rightarrow> 'a list" where
  "slice a b xs = take (b - a) (drop a xs)"

datatype pattern = AfterHoursAccess nat | ExcessiveUserActivity string jsValue

fun patternDescription :: "pattern \<Rightarrow> string" where
  "patternDescription (AfterHoursAccess n) = showNat n @ '' transactions during non-business hours''"
| "patternDescription (ExcessiveUserActivity u count) =
     ''User '' @ u @ '' performed '' @ showValue count @ '' transactions in 7 days''"

fun isAfterHours :: "pattern \<Rightarrow> bool" where
  "isAfterHours (AfterHoursAccess n) = True"
| "isAfterHours (ExcessiveUserActivity u count) = False"

fun join :: "string \<Rightarrow> string list \<Rightarrow> string" where
  "join sep [] = []"
| "join sep [x] = x"
| "join sep (x # y # ys) = x @ sep @ join sep (y # ys)"

definition totalNightActivity :: "nat list \<Rightarrow> nat" where
  "totalNightActivity hourlyActivity =
     foldl (\<lambda>sum n. sum + n) 0 (slice 23 24 hourlyActivity @ slice 0 6 hourlyActivity)"

definition unusualPatternsOf :: "env \<Rightarrow> transaction list \<Rightarrow> pattern list" where
  "unusualPatternsOf e txs =
     (let (hourlyActivity, userActivity) = tally e (replicate 24 0) [] txs;
          night = totalNightActivity hourlyActivity
      in (if night > 2 then [AfterHoursAccess night] else []) @
         map (\<lambda>(userId, count). ExcessiveUserActivity userId count)
           (filter (\<lambda>(userId, count). greaterThan10 count \<and> userId \<noteq> ''system'')
             (Object_entries userActivity)))"

definition detectUnauthorizedAccess :: "env \<Rightarrow> store \<Rightarrow> product \<Rightarrow> ctx \<Rightarrow> ctx" where
  "detectUnauthorizedAccess e s product c =
     (let sevenDaysAgo = e_now e - 7 * dayMs;
          txs = Transaction_find s (p_id product) sevenDaysAgo;
          unusualPatterns = unusualPatternsOf e txs
      in if length unusualPatterns > 0 then
           (let f = \<lparr> f_productId = Some (p_id product), f_type = ''unauthorized_access_pattern'',
                       f_resolved = None, f_createdAtGte = Some (e_now e - dayMs) \<rparr>;
                existingAnomaly = Anomaly_findOne s f;
                c1 = logLookup f c
            in if existingAnomaly = None then
                 push \<lparr> c_productId = Some (p_id product), c_type = ''unauthorized_access_pattern'',
                        c_severity = (if list_ex isAfterHours unusualPatterns then ''high'' else ''medium''),
                        c_description = ''Unusual access patterns detected: '' @
                           join '', '' (map patternDescription unusualPatterns),
                        c_aiConfidence = roundDouble (70 / 100) \<rparr> c1
               else c1)
         else c)"

subsection \<open>detectSystemwideTheftPatterns\<close>

record suspicious =
  su_productId :: objectId
  su_discrepancy :: int
  su_value :: rat

definition suspiciousOf :: "env \<Rightarrow> store \<Rightarrow> product \<Rightarrow> suspicious list" where
  "suspiciousOf e s product =
     (let recentTransactions = Transaction_find s (p_id product) (e_now e - dayMs)
      in if length recentTransactions > 0 then
           (let lastTransaction = last recentTransactions;
                discrepancy = t_newQuantity lastTransaction - p_quantity product
            in if p_quantity product < t_newQuantity lastTransaction \<and> discrepancy > 0 then
                 [\<lparr> su_productId = p_id product, su_discrepancy = discrepancy,
                     su_value = roundDouble (of_int discrepancy * roundDouble (p_price product)) \<rparr>]
               else [])
         else [])"

text \<open>The loop over the products priced above 100, filling \<open>suspiciousActivity\<close>.\<close>

definition suspiciousActivityOf :: "env \<Rightarrow> store \<Rightarrow> suspicious list" where
  "suspiciousActivityOf e s =
     (let highValueProducts = filter (\<lambda>p. roundDouble (p_price p) > 100) (products s)
      in foldl (\<lambda>found product. found @ suspiciousOf e s product) [] highValueProducts)"

definition detectSystemwideTheftPatterns :: "env \<Rightarrow> store \<Rightarrow> ctx \<Rightarrow> ctx" where
  "detectSystemwideTheftPatterns e s c =
     (let suspiciousActivity = suspiciousActivityOf e s
      in if length suspiciousActivity \<ge> 3 then
           (let totalValue = foldl (\<lambda>sum item. roundDouble (sum + su_value item)) 0 suspiciousActivity
            in push \<lparr> c_productId = None, c_type = ''organized_theft_pattern'',
                      c_severity = ''critical'',
                      c_description = ''Potential organized theft: '' @
                         showNat (length suspiciousActivity) @
                         '' high-value items with discrepancies (total value: '' @
                         toFixed 2 totalValue @ '')'',
                      c_aiConfidence = roundDouble (85 / 100) \<rparr> c)
         else c)"

subsection \<open>Anomaly.insertMany and detectAnomalies\<close>

datatype storeError = ValidationError

definition newAnomaly :: "int \<Rightarrow> objectId \<Rightarrow> candidate \<Rightarrow> anomaly" where
  "newAnomaly now i c =
     \<lparr> a_id = i, a_productId = c_productId c, a_type = c_type c, a_severity = c_severity c,
       a_description = c_description c, a_aiConfidence = c_aiConfidence c,
       a_resolved = False, a_createdAt = now \<rparr>"

text \<open>
  Mongoose validates every document of an ordered \<open>insertMany\<close> before it writes: one
  invalid document rejects the call and nothing is inserted. Anomalies are never deleted,
  so the size of the collection is a fresh id.
\<close>

definition Anomaly_insertMany :: "int \<Rightarrow> candidate list \<Rightarrow> store \<Rightarrow> storeError + store" where
  "Anomaly_insertMany now docs s =
     (if list_all validateAnomaly docs then
        Inr (s\<lparr> anomalies := anomalies s @
                   map (\<lambda>(i, c). newAnomaly now (length (anomalies s) + i) c) (enumerate 0 docs) \<rparr>)
      else Inl ValidationError)"

definition detectProduct :: "env \<Rightarrow> store \<Rightarrow> product \<Rightarrow> ctx \<Rightarrow> ctx" where
  "detectProduct e s product c =
     detectUnauthorizedAccess e s product
       (detectShrinkagePatterns e s product
         (detectPotentialTheft e s product
           (detectExpiryWarnings e s product
             (detectLowStock s product c))))"

definition runDetectors :: "env \<Rightarrow> store \<Rightarrow> ctx" where
  "runDetectors e s =
     detectSystemwideTheftPatterns e s
       (foldl (\<lambda>c product. detectProduct e s product c) \<lparr> batch = [], lookups = [] \<rparr> (products s))"

text \<open>The result: the array the pass returns (empty when the \<open>catch\<close> ran) and the store.\<close>

definition detectAnomalies :: "env \<Rightarrow> store \<Rightarrow> candidate list \<times> store" where
  "detectAnomalies e s =
     (let anomalies = batch (runDetectors e s)
      in if length anomalies > 0 then
           (case Anomaly_insertMany (e_now e) anomalies s of
              Inl err \<Rightarrow> ([], s)
            | Inr s' \<Rightarrow> (anomalies, s'))
         else (anomalies, s))"

section \<open>Alert generator: generateTheftAlerts (src/index.js)\<close>

definition theftAlertTypes :: "string list" where
  "theftAlertTypes = [''low_stock'', ''unusual_pattern'', ''expiry_warning'', ''high_variance'',
     ''stock_discrepancy'', ''potential_theft'', ''unauthorized_access_pattern'', ''security'']"

definition toUpperCase :: "string \<Rightarrow> string" where
  "toUpperCase str =
     map (\<lambda>ch. if 97 \<le> (of_char ch :: nat) \<and> (of_char ch :: nat) \<le> 122
                then char_of ((of_char ch :: nat) - 32) else ch) str"

definition replaceUnderscores :: "string \<Rightarrow> string" where
  "replaceUnderscores str = map (\<lambda>ch. if ch = CHR ''_'' then CHR '' '' else ch) str"

text \<open>The title's leading emoji U+1F6A8, as its four UTF-8 bytes.\<close>

definition alertTitle :: "string \<Rightarrow> string" where
  "alertTitle ty = [CHR 0xF0, CHR 0x9F, CHR 0x9A, CHR 0xA8] @ '' SECURITY ALERT: '' @
     toUpperCase (replaceUnderscores ty)"

text \<open>
  \<open>Alert.findOne({ type: 'security', productId, createdAt: { $gte: since } })\<close>; a
  \<open>null\<close> productId matches the alerts that have none.
\<close>

definition Alert_findOne :: "store \<Rightarrow> objectId option \<Rightarrow> int \<Rightarrow> alert option" where
  "Alert_findOne s pid since =
     find (\<lambda>a. al_type a = ''security'' \<and> al_productId a = pid \<and> since \<le> al_createdAt a) (alerts s)"

text \<open>
  \<open>populate('productId', ...)\<close> replaces the reference by the product document, or by
  \<open>null\<close> when no such product exists.
\<close>

definition populate :: "store \<Rightarrow> anomaly \<Rightarrow> product option" where
  "populate s a = (case a_productId a of None \<Rightarrow> None | Some pid \<Rightarrow> findById (products s) pid)"

definition alertOf :: "env \<Rightarrow> store \<Rightarrow> anomaly \<Rightarrow> alert list" where
  "alertOf e s anomaly =
     (let populated = populate s anomaly;
          pid = map_option p_id populated;
          existingAlert = Alert_findOne s pid (e_now e - 2 * 60 * 60 * 1000)
      in if existingAlert = None then
           [\<lparr> al_type = ''security'', al_title = alertTitle (a_type anomaly),
               al_message = (case populated of
                               Some product \<Rightarrow> p_name product @ '': '' @ a_description anomaly
                             | None \<Rightarrow> a_description anomaly),
               al_severity = ''error'', al_read = False, al_productId = pid,
               al_createdAt = e_now e \<rparr>]
         else [])"

definition Alert_insertMany :: "alert list \<Rightarrow> store \<Rightarrow> storeError + store" where
  "Alert_insertMany docs s =
     (if list_all validateAlert docs then Inr (s\<lparr> alerts := alerts s @ docs \<rparr>)
      else Inl ValidationError)"

text \<open>
  The query has no \<open>resolved\<close> condition (the line is commented out in the source). The
  loop looks each anomaly's product up in the stored alerts, not in the array it fills.
\<close>

definition generateTheftAlerts :: "env \<Rightarrow> store \<Rightarrow> alert list \<times> store" where
  "generateTheftAlerts e s =
     (let theftAnomalies = filter (\<lambda>a. a_type a \<in> set theftAlertTypes) (anomalies s);
          alerts = foldl (\<lambda>alerts anomaly. alerts @ alertOf e s anomaly) [] theftAnomalies
      in if length alerts > 0 then
           (case Alert_insertMany alerts s of
              Inl err \<Rightarrow> ([], s)
            | Inr s' \<Rightarrow> (alerts, s'))
         else (alerts, s))"

section \<open>Notions of the specification\<close>

text \<open>
  What the specification's sentences speak of, written from its words, to be compared
  with what the detectors compute.
\<close>

text \<open>A candidate of a type for a product, and how many of them an array holds.\<close>

definition isCandidate :: "string \<Rightarrow> objectId \<Rightarrow> candidate \<Rightarrow> bool" where
  "isCandidate ty pid x = (c_type x = ty \<and> c_productId x = Some pid)"

definition candidateCount :: "string \<Rightarrow> objectId \<Rightarrow> candidate list \<Rightarrow> nat" where
  "candidateCount ty pid xs = length (filter (isCandidate ty pid) xs)"

text \<open>
  The trigger conditions of the two idempotent rules: \<open>quantity <= minimumStock\<close>, and
  \<open>0 < daysUntilExpiry <= 30\<close>.
\<close>

definition due :: "env \<Rightarrow> product \<Rightarrow> string \<Rightarrow> bool" where
  "due e p ty =
     (if ty = ''low_stock'' then p_quantity p \<le> p_minimumStock p
      else if ty = ''expiry_warning'' then
        (case p_expiryDate p of
           None \<Rightarrow> False
         | Some d \<Rightarrow> 0 < daysUntilExpiry e d \<and> daysUntilExpiry e d \<le> 30)
      else False)"

text \<open>A product's ledger over the trailing \<open>days\<close> days, in chronological order.\<close>

definition ledger :: "env \<Rightarrow> store \<Rightarrow> product \<Rightarrow> int \<Rightarrow> transaction list" where
  "ledger e s product days = sortByCreatedAt (Transaction_find s (p_id product) (e_now e - days * dayMs))"

text \<open>
  An anomaly of the given type for the product, recorded within the last \<open>days\<close> days:
  unresolved, or in any resolution state.
\<close>

definition recentUnresolved :: "env \<Rightarrow> store \<Rightarrow> string \<Rightarrow> objectId \<Rightarrow> int \<Rightarrow> bool" where
  "recentUnresolved e s ty pid days =
     list_ex (\<lambda>a. a_productId a = Some pid \<and> a_type a = ty \<and> \<not> a_resolved a \<and>
                  e_now e - days * dayMs \<le> a_createdAt a) (anomalies s)"

definition recentAny :: "env \<Rightarrow> store \<Rightarrow> string \<Rightarrow> objectId \<Rightarrow> int \<Rightarrow> bool" where
  "recentAny e s ty pid days =
     list_ex (\<lambda>a. a_productId a = Some pid \<and> a_type a = ty \<and>
                  e_now e - days * dayMs \<le> a_createdAt a) (anomalies s)"

text \<open>The total loss of the potential-theft rule over the last 30 days.\<close>

definition totalLoss30 :: "env \<Rightarrow> store \<Rightarrow> product \<Rightarrow> int" where
  "totalLoss30 e s product = sum_list (map l_discrepancy (unexplainedLossesOf e product (ledger e s product 30)))"

text \<open>
  \<open>expectedStock = firstTransaction.previousQuantity + sum(restock/purchase) - sum(sale)\<close>
\<close>

definition expectedStock_spec :: "transaction list \<Rightarrow> int" where
  "expectedStock_spec txs =
     t_previousQuantity (hd txs) +
     (\<Sum>t \<leftarrow> txs. if t_type t = ''restock'' \<or> t_type t = ''purchase'' then \<bar>t_quantity t\<bar> else 0) -
     (\<Sum>t \<leftarrow> txs. if t_type t = ''sale'' then \<bar>t_quantity t\<bar> else 0)"

text \<open>
  The hour of day of an instant (the milliseconds into its day, in whole hours), and the
  transactions in the hours 23, 0, 1, 2, 3, 4, 5.
\<close>

definition hourOfDay :: "env \<Rightarrow> int \<Rightarrow> int" where
  "hourOfDay e t = ((t + e_tzOffset e) mod 86400000) div 3600000"

definition nightCount :: "env \<Rightarrow> transaction list \<Rightarrow> nat" where
  "nightCount e txs =
     length (filter (\<lambda>t. hourOfDay e (t_createdAt t) = 23 \<or> hourOfDay e (t_createdAt t) < 6) txs)"

text \<open>
  The transactions recorded with an actor identifier, and those recorded with none (an
  absent or empty one), which the detector counts under the name \<open>unknown\<close>.
\<close>

definition actorCount :: "string \<Rightarrow> transaction list \<Rightarrow> nat" where
  "actorCount u txs = length (filter (\<lambda>t. t_userId t = Some u) txs)"

definition anonymousCount :: "transaction list \<Rightarrow> nat" where
  "anonymousCount txs = length (filter (\<lambda>t. t_userId t = None \<or> t_userId t = Some []) txs)"

text \<open>
  For the proofs about \<open>userActivity\<close>: the number an object holds under a key, and the
  shape the loop keeps (distinct keys, a non-empty string exactly under the inherited
  function names, positive numbers elsewhere, nothing under \<open>__proto__\<close>).
\<close>

definition countOf :: "(string \<times> jsValue) list \<Rightarrow> string \<Rightarrow> nat" where
  "countOf m k = (case map_of m k of Some (Num n) \<Rightarrow> n | _ \<Rightarrow> 0)"

definition ownOk :: "string \<times> jsValue \<Rightarrow> bool" where
  "ownOk x =
     (fst x \<noteq> ''__proto__'' \<and>
      (case snd x of
         Num n \<Rightarrow> 0 < n \<and> fst x \<notin> set prototypeFunctions
       | Str str \<Rightarrow> str \<noteq> [] \<and> fst x \<in> set prototypeFunctions))"

definition wellFormed :: "(string \<times> jsValue) list \<Rightarrow> bool" where
  "wellFormed m = (distinct (map fst m) \<and> list_all ownOk m)"

text \<open>The unresolved anomalies of a type that the store holds for a product.\<close>

definition openCount :: "store \<Rightarrow> string \<Rightarrow> objectId \<Rightarrow> nat" where
  "openCount s ty pid =
     length (filter (\<lambda>a. a_productId a = Some pid \<and> a_type a = ty \<and> \<not> a_resolved a) (anomalies s))"

section \<open>Example stores\<close>

definition exProduct :: product where
  "exProduct = \<lparr> p_id = 1, p_name = ''Soap Bar'', p_category = ''Personal Care'',
     p_quantity = 10, p_price = 300, p_expiryDate = None, p_minimumStock = 25 \<rparr>"

definition exStore :: store where
  "exStore = \<lparr> products = [exProduct], transactions = [], anomalies = [], alerts = [] \<rparr>"

definition exSale :: stockRequest where
  "exSale = \<lparr> r_id = 1, r_quantity = 4, r_type = ''sale'', r_reason = None, r_userId = None \<rparr>"

definition exNegativeSale :: stockRequest where
  "exNegativeSale = \<lparr> r_id = 1, r_quantity = - 5, r_type = ''sale'', r_reason = None, r_userId = None \<rparr>"

definition exEnv :: env where
  "exEnv = \<lparr> e_now = 10000000000, e_tzOffset = 0 \<rparr>"

definition exCtx :: ctx where
  "exCtx = \<lparr> batch = [], lookups = [] \<rparr>"

text \<open>
  A sale of 10 units a second ago took the stock from 100 to 90; the live quantity was
  then edited to 80. In the second store a \<open>potential_theft\<close> anomaly is already open.
\<close>

definition exTheftProduct :: product where
  "exTheftProduct = \<lparr> p_id = 1, p_name = ''Test Product'', p_category = ''Electronics'',
     p_quantity = 80, p_price = 50, p_expiryDate = None, p_minimumStock = 10 \<rparr>"

definition exTheftSale :: transaction where
  "exTheftSale = \<lparr> t_productId = 1, t_type = ''sale'', t_quantity = - 10, t_previousQuantity = 100,
     t_newQuantity = 90, t_reason = None, t_userId = Some ''system'', t_createdAt = 9999999000 \<rparr>"

definition exTheftAnomaly :: anomaly where
  "exTheftAnomaly = \<lparr> a_id = 0, a_productId = Some 1, a_type = ''potential_theft'',
     a_severity = ''medium'', a_description = ''Potential theft detected'', a_aiConfidence = 1 / 2,
     a_resolved = False, a_createdAt = 9999999000 \<rparr>"

definition exTheftStore :: store where
  "exTheftStore = \<lparr> products = [exTheftProduct], transactions = [exTheftSale],
     anomalies = [], alerts = [] \<rparr>"

definition exTheftStore2 :: store where
  "exTheftStore2 = exTheftStore\<lparr> anomalies := [exTheftAnomaly] \<rparr>"

text \<open>The same product whose only transaction is older than 30 days.\<close>

definition exDormantStore :: store where
  "exDormantStore = \<lparr> products = [exTheftProduct],
     transactions = [exTheftSale\<lparr> t_createdAt := 1000 \<rparr>],
     anomalies = [exTheftAnomaly], alerts = [] \<rparr>"

text \<open>
  Three products priced above 100, each restocked from 0 to 8 a second ago and then
  edited down to 5. The first is also below its minimum stock.
\<close>

definition exHighValue :: "objectId \<Rightarrow> int \<Rightarrow> product" where
  "exHighValue i minimumStock = \<lparr> p_id = i, p_name = ''Phone'', p_category = ''Electronics'',
     p_quantity = 5, p_price = 150, p_expiryDate = None, p_minimumStock = minimumStock \<rparr>"

definition exRestock :: "objectId \<Rightarrow> transaction" where
  "exRestock i = \<lparr> t_productId = i, t_type = ''restock'', t_quantity = 8, t_previousQuantity = 0,
     t_newQuantity = 8, t_reason = None, t_userId = Some ''system'', t_createdAt = 9999999000 \<rparr>"

definition exRingStore :: store where
  "exRingStore = \<lparr> products = [exHighValue 1 10, exHighValue 2 0, exHighValue 3 0],
     transactions = [exRestock 1, exRestock 2, exRestock 3], anomalies = [], alerts = [] \<rparr>"

text \<open>
  One product with two unresolved anomalies and no alert; the same product with one
  anomaly that has been resolved.
\<close>

text \<open>The doubles 0.95 and 0.9.\<close>

definition exConfidence95 :: rat where
  "exConfidence95 = 4278419646001971 / 4503599627370496"

definition exConfidence90 :: rat where
  "exConfidence90 = 8106479329266893 / 9007199254740992"

definition exLowStockAnomaly :: anomaly where
  "exLowStockAnomaly = \<lparr> a_id = 0, a_productId = Some 1, a_type = ''low_stock'',
     a_severity = ''high'', a_description = ''Stock critically low: 10 units remaining'',
     a_aiConfidence = exConfidence95, a_resolved = False, a_createdAt = 9999999000 \<rparr>"

definition exExpiryAnomaly :: anomaly where
  "exExpiryAnomaly = \<lparr> a_id = 1, a_productId = Some 1, a_type = ''expiry_warning'',
     a_severity = ''medium'', a_description = ''Product expires in 20 days'',
     a_aiConfidence = exConfidence90, a_resolved = False, a_createdAt = 9999999000 \<rparr>"

definition exTwoAnomalies :: store where
  "exTwoAnomalies = exStore\<lparr> anomalies := [exLowStockAnomaly, exExpiryAnomaly] \<rparr>"

definition exResolvedOnly :: store where
  "exResolvedOnly = exStore\<lparr> anomalies := [exLowStockAnomaly\<lparr> a_resolved := True \<rparr>] \<rparr>"

text \<open>
  Ten sales of one unit each in the last seconds, from a stock of 100; the live quantity
  was edited to 40.
\<close>

definition exShrinkProduct :: product where
  "exShrinkProduct = \<lparr> p_id = 1, p_name = ''Test Product'', p_category = ''Electronics'',
     p_quantity = 40, p_price = 50, p_expiryDate = None, p_minimumStock = 10 \<rparr>"

definition exUnitSale :: "nat \<Rightarrow> transaction" where
  "exUnitSale i = \<lparr> t_productId = 1, t_type = ''sale'', t_quantity = - 1,
     t_previousQuantity = 100 - int i, t_newQuantity = 99 - int i, t_reason = None,
     t_userId = Some ''system'', t_createdAt = 9999990000 + int i \<rparr>"

definition exShrinkStore :: store where
  "exShrinkStore = \<lparr> products = [exShrinkProduct], transactions = map exUnitSale [0..<10],
     anomalies = [], alerts = [] \<rparr>"

text \<open>Three restocks of the first example product at two o'clock at night (UTC).\<close>

definition exNightRestock :: "int \<Rightarrow> transaction" where
  "exNightRestock t = \<lparr> t_productId = 1, t_type = ''restock'', t_quantity = 1,
     t_previousQuantity = 10, t_newQuantity = 11, t_reason = None,
     t_userId = Some ''system'', t_createdAt = t \<rparr>"

definition exNightStore :: store where
  "exNightStore = exStore\<lparr> transactions :=
     [exNightRestock 9943200000, exNightRestock 9943200001, exNightRestock 9943200002] \<rparr>"

text \<open>
  Eleven sales of the first example product in the last seconds, at five in the
  afternoon (UTC), each sent with the header \<open>user-id: constructor\<close>.
\<close>

definition exConstructorSale :: "nat \<Rightarrow> transaction" where
  "exConstructorSale i = \<lparr> t_productId = 1, t_type = ''sale'', t_quantity = - 1,
     t_previousQuantity = 100 - int i, t_newQuantity = 99 - int i, t_reason = None,
     t_userId = Some ''constructor'', t_createdAt = 9999990000 + int i \<rparr>"

definition exConstructorStore :: store where
  "exConstructorStore = exStore\<lparr> transactions := map exConstructorSale [0..<11] \<rparr>"

text \<open>The first example product with two unresolved \<open>low_stock\<close> anomalies already stored.\<close>

definition exDuplicateStore :: store where
  "exDuplicateStore = exStore\<lparr> anomalies := [exLowStockAnomaly, exLowStockAnomaly\<lparr> a_id := 1 \<rparr>] \<rparr>"

section \<open>Properties of the stock mutation\<close>

lemma findById_id: "findById ps i = Some p \<Longrightarrow> p_id p = i"
  by (auto simp: findById_def find_Some_iff)

lemma findById_saveProduct:
  "findById ps i = Some p \<Longrightarrow> p_id p' = i \<Longrightarrow> findById (saveProduct p' ps) i = Some p'"
  by (induction ps) (auto simp: findById_def saveProduct_def split: if_splits)

lemma postStock_writes:
  assumes "postStock now req s = (resp, s')"
  shows "(\<forall>p tr. resp \<noteq> Ok p tr) \<and> s' = s \<or>
         (\<exists>p tr. resp = Ok p tr \<and> transactions s' = transactions s @ [tr])"
  using assms
  by (auto simp: postStock_def Let_def validateProduct_def split: option.splits if_splits)

lemma postStock_invalid_type_rejected:
  assumes "r_type req \<notin> set transactionTypes"
  shows "snd (postStock now req s) = s \<and> fst (postStock now req s) \<in> {NotFound, BadRequest}"
  using assms
  by (auto simp: postStock_def Let_def validateTransaction_def split: option.splits)

lemma quantityChange_sign:
  "0 < q \<Longrightarrow> (quantityChange ty q < 0) = (ty = ''sale'' \<or> ty = ''expiry'' \<or> ty = ''damage'')"
  "0 < q \<Longrightarrow> (0 < quantityChange ty q) = (ty \<noteq> ''sale'' \<and> ty \<noteq> ''expiry'' \<and> ty \<noteq> ''damage'')"
  by (auto simp: quantityChange_def)

text \<open>
  Claim C3. For a stock change with a positive quantity: the signed delta is the
  quantity, negated exactly for the types \<open>sale\<close>, \<open>expiry\<close> and \<open>damage\<close>, so negative
  for these and positive for every other type; when the product exists and the transaction type passes the schema, the handler
  records one transaction whose \<open>newQuantity\<close> is \<open>max 0 (previousQuantity + delta)\<close> and
  stores that quantity in the product. Otherwise it answers 404 or 400 and writes nothing.
\<close>

theorem stock_change_effect:
  assumes "0 < r_quantity req"
  shows "let d = quantityChange (r_type req) (r_quantity req) in
     d = (if r_type req = ''sale'' \<or> r_type req = ''expiry'' \<or> r_type req = ''damage''
          then - r_quantity req else r_quantity req) \<and>
     (d < 0) = (r_type req = ''sale'' \<or> r_type req = ''expiry'' \<or> r_type req = ''damage'') \<and>
     (0 < d) = (r_type req \<noteq> ''sale'' \<and> r_type req \<noteq> ''expiry'' \<and> r_type req \<noteq> ''damage'') \<and>
     (case findById (products s) (r_id req) of
        None \<Rightarrow> postStock now req s = (NotFound, s)
      | Some product \<Rightarrow>
          if r_type req \<in> set transactionTypes then
            (\<exists>tr s'. postStock now req s =
                 (Ok (product\<lparr> p_quantity := max 0 (p_quantity product + d) \<rparr>) tr, s') \<and>
               t_type tr = r_type req \<and> t_quantity tr = d \<and>
               t_previousQuantity tr = p_quantity product \<and>
               t_newQuantity tr = max 0 (p_quantity product + d) \<and>
               transactions s' = transactions s @ [tr] \<and>
               findById (products s') (r_id req) =
                 Some (product\<lparr> p_quantity := max 0 (p_quantity product + d) \<rparr>))
          else postStock now req s = (BadRequest, s))"
proof -
  define d where "d = quantityChange (r_type req) (r_quantity req)"
  have magnitude: "d = (if r_type req = ''sale'' \<or> r_type req = ''expiry'' \<or> r_type req = ''damage''
          then - r_quantity req else r_quantity req)"
    using assms by (simp add: d_def quantityChange_def)
  have sign: "(d < 0) = (r_type req = ''sale'' \<or> r_type req = ''expiry'' \<or> r_type req = ''damage'')"
    "(0 < d) = (r_type req \<noteq> ''sale'' \<and> r_type req \<noteq> ''expiry'' \<and> r_type req \<noteq> ''damage'')"
    using assms by (simp_all add: d_def quantityChange_sign)
  have body: "(case findById (products s) (r_id req) of
        None \<Rightarrow> postStock now req s = (NotFound, s)
      | Some product \<Rightarrow>
          if r_type req \<in> set transactionTypes then
            (\<exists>tr s'. postStock now req s =
                 (Ok (product\<lparr> p_quantity := max 0 (p_quantity product + d) \<rparr>) tr, s') \<and>
               t_type tr = r_type req \<and> t_quantity tr = d \<and>
               t_previousQuantity tr = p_quantity product \<and>
               t_newQuantity tr = max 0 (p_quantity product + d) \<and>
               transactions s' = transactions s @ [tr] \<and>
               findById (products s') (r_id req) =
                 Some (product\<lparr> p_quantity := max 0 (p_quantity product + d) \<rparr>))
          else postStock now req s = (BadRequest, s))"
  proof (cases "findById (products s) (r_id req)")
    case None
    then show ?thesis by (simp add: postStock_def)
  next
    case (Some product)
    have pid: "p_id product = r_id req" using Some by (rule findById_id)
    show ?thesis
    proof (cases "r_type req \<in> set transactionTypes")
      case False
      then show ?thesis using Some
        by (simp add: postStock_def Let_def validateTransaction_def)
    next
      case True
      have "findById (saveProduct (product\<lparr> p_quantity := max 0 (p_quantity product + d) \<rparr>) (products s)) (r_id req)
            = Some (product\<lparr> p_quantity := max 0 (p_quantity product + d) \<rparr>)"
        using Some pid by (intro findById_saveProduct) simp_all
      then show ?thesis using Some True
        by (simp add: postStock_def Let_def validateTransaction_def validateProduct_def d_def)
    qed
  qed
  show ?thesis using magnitude sign body unfolding Let_def d_def by blast
qed

theorem stock_change_effect_witness:
  "0 < r_quantity exSale \<and>
   (\<exists>tr s'. postStock 1000 exSale exStore = (Ok (exProduct\<lparr> p_quantity := 6 \<rparr>) tr, s') \<and>
      t_quantity tr = - 4 \<and> t_previousQuantity tr = 10 \<and> t_newQuantity tr = 6 \<and>
      transactions s' = [tr] \<and> findById (products s') 1 = Some (exProduct\<lparr> p_quantity := 6 \<rparr>))"
  using stock_change_effect [where req = exSale and s = exStore and now = 1000]
  by (simp add: exSale_def exStore_def exProduct_def findById_def quantityChange_def
      transactionTypes_def Let_def) blast

text \<open>
  The copy of the route in src/routes/products.js, which the server does not load,
  treats \<open>expiry\<close> and \<open>damage\<close> as increases.
\<close>

lemma routes_copy_differs:
  "quantityChange ''damage'' 5 = - 5 \<and> quantityChange_routes ''damage'' 5 = 5"
  by (simp add: quantityChange_def quantityChange_routes_def)

text \<open>
  Claim C6. A request with an invalid transaction type is rejected with nothing written
  (\<open>postStock_invalid_type_rejected\<close>). A request whose quantity is not a positive
  integer is not rejected: the route does not apply \<open>stockUpdateValidation\<close>, takes the
  absolute value of the quantity, records the transaction and updates the product.
\<close>

theorem negative_quantity_is_applied:
  "\<not> stockUpdateValidation exNegativeSale \<and>
   postStock 1000 exNegativeSale exStore =
     (Ok (exProduct\<lparr> p_quantity := 5 \<rparr>)
        \<lparr> t_productId = 1, t_type = ''sale'', t_quantity = - 5, t_previousQuantity = 10,
          t_newQuantity = 5, t_reason = None, t_userId = Some ''system'', t_createdAt = 1000 \<rparr>,
      exStore\<lparr> products := [exProduct\<lparr> p_quantity := 5 \<rparr>],
               transactions := [\<lparr> t_productId = 1, t_type = ''sale'', t_quantity = - 5,
                 t_previousQuantity = 10, t_newQuantity = 5, t_reason = None,
                 t_userId = Some ''system'', t_createdAt = 1000 \<rparr>] \<rparr>)"
  by (simp add: stockUpdateValidation_def exNegativeSale_def exStore_def exProduct_def postStock_def
      findById_def quantityChange_def transactionTypes_def validateTransaction_def
      validateProduct_def saveProduct_def headerUserId_def Let_def)

section \<open>Properties of the detectors\<close>

text \<open>The confidences of the example anomalies are the doubles of the literals.\<close>

lemma exConfidence_doubles:
  "exConfidence95 = roundDouble (95 / 100) \<and> exConfidence90 = roundDouble (90 / 100)"
  by code_simp

lemma foldl_add_sum: "foldl (\<lambda>sum x. sum + f x) (a::int) xs = a + sum_list (map f xs)"
  by (induction xs arbitrary: a) auto

lemma totalLossOf_sum: "totalLossOf ls = sum_list (map l_discrepancy ls)"
  by (simp add: totalLossOf_def foldl_add_sum)

lemma find_None_list_ex: "(find P xs = None) = (\<not> list_ex P xs)"
  by (auto simp: find_None_iff list_ex_iff)

lemma findOne_theft:
  "(Anomaly_findOne s \<lparr> f_productId = Some pid, f_type = ty, f_resolved = Some False,
       f_createdAtGte = Some (e_now e - dayMs) \<rparr> \<noteq> None) = recentUnresolved e s ty pid 1"
  by (simp add: Anomaly_findOne_def find_None_list_ex recentUnresolved_def matchesAnomaly_def
      conj_commute conj_left_commute cong: list_ex_cong)

lemma findOne_recentAny:
  "(Anomaly_findOne s \<lparr> f_productId = Some pid, f_type = ty, f_resolved = None,
       f_createdAtGte = Some (e_now e - d * dayMs) \<rparr> = None) = (\<not> recentAny e s ty pid d)"
  by (simp add: Anomaly_findOne_def find_None_list_ex recentAny_def matchesAnomaly_def
      conj_commute conj_left_commute cong: list_ex_cong)

lemma findOne_recentAny1:
  "(Anomaly_findOne s \<lparr> f_productId = Some pid, f_type = ty, f_resolved = None,
       f_createdAtGte = Some (e_now e - dayMs) \<rparr> = None) = (\<not> recentAny e s ty pid 1)"
  using findOne_recentAny[of s pid ty e 1] by simp

lemma expectedCurrentStock_spec:
  "txs \<noteq> [] \<Longrightarrow> expectedCurrentStock txs = expectedStock_spec txs"
  by (cases txs)
     (simp_all add: expectedCurrentStock_def expectedStock_spec_def sumAbsQuantity_def
        foldl_add_sum sum_list_map_filter' Let_def)

subsection \<open>Potential theft\<close>

lemma detectPotentialTheft_emits:
  "\<exists>em. batch (detectPotentialTheft e s product c) = batch c @ em \<and> length em \<le> 1 \<and>
        list_all (isCandidate ''potential_theft'' (p_id product)) em \<and>
        (em \<noteq> []) =
          (ledger e s product 30 \<noteq> [] \<and>
           unexplainedLossesOf e product (ledger e s product 30) \<noteq> [] \<and>
           recentUnresolved e s ''potential_theft'' (p_id product) 1 \<and>
           totalLossOf (unexplainedLossesOf e product (ledger e s product 30)) > 3)"
  unfolding detectPotentialTheft_def ledger_def Let_def findOne_theft push_def logLookup_def
  by (simp add: isCandidate_def)

text \<open>
  Claim C2. The potential-theft detector adds a \<open>potential_theft\<close> candidate for the
  product exactly when the total loss over the last 30 days exceeds 3 and the store holds
  an unresolved \<open>potential_theft\<close> anomaly for the product created within the last 24
  hours; it adds at most one. With no such prior anomaly it adds none, whatever the loss.
\<close>

theorem potential_theft_two_strike:
  "\<exists>em. batch (detectPotentialTheft e s product c) = batch c @ em \<and> length em \<le> 1 \<and>
        list_all (isCandidate ''potential_theft'' (p_id product)) em \<and>
        (em \<noteq> []) = (totalLoss30 e s product > 3 \<and>
                       recentUnresolved e s ''potential_theft'' (p_id product) 1)"
proof -
  define ls where "ls = unexplainedLossesOf e product (ledger e s product 30)"
  have tl: "totalLoss30 e s product = totalLossOf ls"
    by (simp add: totalLoss30_def ls_def totalLossOf_sum)
  have pos: "totalLossOf ls > 3 \<Longrightarrow> ledger e s product 30 \<noteq> [] \<and> ls \<noteq> []"
    by (auto simp: ls_def unexplainedLossesOf_def totalLossOf_def)
  obtain em where em: "batch (detectPotentialTheft e s product c) = batch c @ em" "length em \<le> 1"
    "list_all (isCandidate ''potential_theft'' (p_id product)) em"
    "(em \<noteq> []) = (ledger e s product 30 \<noteq> [] \<and> ls \<noteq> [] \<and>
        recentUnresolved e s ''potential_theft'' (p_id product) 1 \<and> totalLossOf ls > 3)"
    using detectPotentialTheft_emits [of e s product c] unfolding ls_def by blast
  have "(em \<noteq> []) = (totalLoss30 e s product > 3 \<and>
      recentUnresolved e s ''potential_theft'' (p_id product) 1)"
    unfolding em(4) tl using pos by blast
  then show ?thesis using em(1,2,3) by blast
qed

theorem potential_theft_two_strike_witness:
  "totalLoss30 exEnv exTheftStore exTheftProduct = 10 \<and>
   \<not> recentUnresolved exEnv exTheftStore ''potential_theft'' 1 1 \<and>
   batch (detectPotentialTheft exEnv exTheftStore exTheftProduct exCtx) = [] \<and>
   recentUnresolved exEnv exTheftStore2 ''potential_theft'' 1 1 \<and>
   length (batch (detectPotentialTheft exEnv exTheftStore2 exTheftProduct exCtx)) = 1"
proof -
  have led: "ledger exEnv exTheftStore exTheftProduct 30 = [exTheftSale]"
    "ledger exEnv exTheftStore2 exTheftProduct 30 = [exTheftSale]"
    by (simp_all add: ledger_def Transaction_find_def sortByCreatedAt_def exTheftStore_def
        exTheftStore2_def exTheftProduct_def exTheftSale_def exEnv_def dayMs_def)
  have tl: "totalLoss30 exEnv exTheftStore exTheftProduct = 10"
    "totalLoss30 exEnv exTheftStore2 exTheftProduct = 10"
    unfolding totalLoss30_def led
    by (simp_all add: unexplainedLossesOf_def Let_def exTheftSale_def exTheftProduct_def)
  have r1: "\<not> recentUnresolved exEnv exTheftStore ''potential_theft'' 1 1"
    by (simp add: recentUnresolved_def exTheftStore_def)
  have r2: "recentUnresolved exEnv exTheftStore2 ''potential_theft'' 1 1"
    by (simp add: recentUnresolved_def exTheftStore2_def exTheftStore_def exTheftAnomaly_def
        exEnv_def dayMs_def)
  have p: "p_id exTheftProduct = 1" by (simp add: exTheftProduct_def)
  from potential_theft_two_strike [of exEnv exTheftStore exTheftProduct exCtx]
  have a: "batch (detectPotentialTheft exEnv exTheftStore exTheftProduct exCtx) = []"
    using r1 by (auto simp: p exCtx_def)
  from potential_theft_two_strike [of exEnv exTheftStore2 exTheftProduct exCtx]
  have b: "length (batch (detectPotentialTheft exEnv exTheftStore2 exTheftProduct exCtx)) = 1"
    using r2 tl(2) by (auto simp: p exCtx_def le_Suc_eq)
  show ?thesis using tl(1) r1 a r2 b by simp
qed

text \<open>
  Claim C10. For a product with no transaction in the trailing 30 days the
  potential-theft detector returns its context unchanged, whatever the live quantity:
  no candidate is added and no anomaly lookup is issued.
\<close>

theorem dormant_product_invisible:
  assumes "Transaction_find s (p_id product) (e_now e - 30 * dayMs) = []"
  shows "detectPotentialTheft e s (product\<lparr> p_quantity := q \<rparr>) c = c"
  using assms by (simp add: detectPotentialTheft_def sortByCreatedAt_def Let_def)

theorem dormant_product_invisible_witness:
  "Transaction_find exDormantStore (p_id exTheftProduct) (e_now exEnv - 30 * dayMs) = [] \<and>
   recentUnresolved exEnv exDormantStore ''potential_theft'' 1 1 \<and>
   detectPotentialTheft exEnv exDormantStore (exTheftProduct\<lparr> p_quantity := 0 \<rparr>) exCtx = exCtx"
proof -
  have h: "Transaction_find exDormantStore (p_id exTheftProduct) (e_now exEnv - 30 * dayMs) = []"
    by (simp add: Transaction_find_def exDormantStore_def exTheftProduct_def exTheftSale_def
        exEnv_def dayMs_def)
  have r: "recentUnresolved exEnv exDormantStore ''potential_theft'' 1 1"
    by (simp add: recentUnresolved_def exDormantStore_def exTheftAnomaly_def exEnv_def dayMs_def)
  show ?thesis using h r dormant_product_invisible [OF h, of 0 exCtx] by simp
qed

text \<open>The detector issues its one lookup only when it has found a loss.\<close>

lemma detectPotentialTheft_lookup:
  "lookups (detectPotentialTheft e s product c) = lookups c \<or>
   (\<exists>f. lookups (detectPotentialTheft e s product c) = lookups c @ [f] \<and>
        unexplainedLossesOf e product (ledger e s product 30) \<noteq> [])"
  by (simp add: detectPotentialTheft_def ledger_def Let_def push_def logLookup_def)

subsection \<open>Inventory shrinkage\<close>

lemma detectShrinkagePatterns_emits:
  "\<exists>em. batch (detectShrinkagePatterns e s product c) = batch c @ em \<and> length em \<le> 1 \<and>
        list_all (isCandidate ''inventory_shrinkage'' (p_id product)) em \<and>
        (em \<noteq> []) =
          (10 \<le> length (ledger e s product 90) \<and>
           (of_int (expectedCurrentStock (ledger e s product 90) - p_quantity product) :: rat) / 90 > 5 / 10 \<and>
           expectedCurrentStock (ledger e s product 90) - p_quantity product > 5 \<and>
           \<not> recentAny e s ''inventory_shrinkage'' (p_id product) 7)"
  unfolding detectShrinkagePatterns_def ledger_def Let_def findOne_recentAny push_def logLookup_def
  by (simp add: isCandidate_def not_less)

text \<open>
  Claim C7. The shrinkage detector adds an \<open>inventory_shrinkage\<close> candidate (at most one)
  exactly when the product has at least 10 transactions in the trailing 90 days, the
  shrinkage (expected stock, as the specification computes it, minus the live quantity)
  is above 5 and its daily rate \<open>shrinkage / 90\<close> above 0.5, and the store holds no
  \<open>inventory_shrinkage\<close> anomaly of the product from the last 7 days, resolved or not.
  With fewer than 10 transactions it adds none.
\<close>

theorem shrinkage_conditions:
  "\<exists>em. batch (detectShrinkagePatterns e s product c) = batch c @ em \<and> length em \<le> 1 \<and>
        list_all (isCandidate ''inventory_shrinkage'' (p_id product)) em \<and>
        (em \<noteq> []) =
          (10 \<le> length (ledger e s product 90) \<and>
           (of_int (expectedStock_spec (ledger e s product 90) - p_quantity product) :: rat) / 90 > 0.5 \<and>
           expectedStock_spec (ledger e s product 90) - p_quantity product > 5 \<and>
           \<not> recentAny e s ''inventory_shrinkage'' (p_id product) 7)"
proof (cases "10 \<le> length (ledger e s product 90)")
  case True
  then have "ledger e s product 90 \<noteq> []" by auto
  then have eq: "expectedCurrentStock (ledger e s product 90) = expectedStock_spec (ledger e s product 90)"
    by (rule expectedCurrentStock_spec)
  show ?thesis
    using detectShrinkagePatterns_emits [of e s product c] unfolding eq by simp
next
  case False
  then show ?thesis
    using detectShrinkagePatterns_emits [of e s product c] by simp
qed

theorem shrinkage_conditions_witness:
  "length (ledger exEnv exShrinkStore exShrinkProduct 90) = 10 \<and>
   expectedStock_spec (ledger exEnv exShrinkStore exShrinkProduct 90) = 90 \<and>
   map c_type (batch (detectShrinkagePatterns exEnv exShrinkStore exShrinkProduct exCtx)) =
     [''inventory_shrinkage'']"
proof -
  have l: "length (ledger exEnv exShrinkStore exShrinkProduct 90) = 10" by code_simp
  have x: "expectedStock_spec (ledger exEnv exShrinkStore exShrinkProduct 90) = 90" by code_simp
  have q: "p_quantity exShrinkProduct = 40" "p_id exShrinkProduct = 1"
    by (simp_all add: exShrinkProduct_def)
  have r: "\<not> recentAny exEnv exShrinkStore ''inventory_shrinkage'' 1 7"
    by (simp add: recentAny_def exShrinkStore_def)
  have b: "batch exCtx = []" by (simp add: exCtx_def)
  obtain em where em: "batch (detectShrinkagePatterns exEnv exShrinkStore exShrinkProduct exCtx) = em"
    "length em \<le> 1" "list_all (isCandidate ''inventory_shrinkage'' 1) em" "em \<noteq> []"
    using shrinkage_conditions [of exEnv exShrinkStore exShrinkProduct exCtx]
    unfolding l x q b using r by auto
  then obtain c where "em = [c]" by (cases em) auto
  then have "map c_type em = [''inventory_shrinkage'']" using em(3) by (simp add: isCandidate_def)
  then show ?thesis using l x em(1) by simp
qed

subsection \<open>Unauthorized access\<close>

text \<open>The hours the detector buckets are the hours of day, and the night sum counts them.\<close>

lemma hour_split: "(x div 3600000) mod 24 = (x mod 86400000) div 3600000" for x :: int
proof -
  have "x mod 86400000 = 3600000 * (x div 3600000 mod 24) + x mod 3600000"
    using zmod_zmult2_eq[of 24 x 3600000] by simp
  then have "(x mod 86400000) div 3600000 =
      (3600000 * (x div 3600000 mod 24) + x mod 3600000) div 3600000" by simp
  also have "\<dots> = x div 3600000 mod 24" by simp
  finally show ?thesis by simp
qed

lemma getHours_hourOfDay: "int (getHours e t) = hourOfDay e t"
  by (simp add: getHours_def hourOfDay_def hour_split)

lemma tally_hours:
  assumes "length h = 24"
  shows "length (fst (tally e h u txs)) = 24 \<and>
         (\<forall>i<24. fst (tally e h u txs) ! i =
                   h ! i + length (filter (\<lambda>t. getHours e (t_createdAt t) = i) txs))"
  using assms
proof (induction txs arbitrary: h u)
  case Nil
  then show ?case by simp
next
  case (Cons tr rest)
  let ?hour = "getHours e (t_createdAt tr)"
  let ?h1 = "h[?hour := h ! ?hour + 1]"
  have len: "length ?h1 = 24" using Cons.prems by simp
  have nth: "\<And>i. i < 24 \<Longrightarrow> ?h1 ! i = h ! i + (if ?hour = i then 1 else 0)"
    using Cons.prems by (simp add: nth_list_update)
  show ?case
    using Cons.IH[OF len, of "bumpUser (actorOf tr) u"] nth
    by (auto simp: Let_def)
qed

lemma night_slices:
  assumes "length h = 24"
  shows "totalNightActivity h = h ! 23 + h ! 0 + h ! 1 + h ! 2 + h ! 3 + h ! 4 + h ! 5"
proof -
  have a: "slice 23 24 h = [h ! 23]"
    using assms by (simp add: slice_def take_Suc_conv_app_nth[of 0] flip: Cons_nth_drop_Suc)
  have b: "slice 0 6 h = [h ! 0, h ! 1, h ! 2, h ! 3, h ! 4, h ! 5]"
    using assms by (simp add: slice_def eval_nat_numeral take_Suc_conv_app_nth)
  show ?thesis by (simp add: totalNightActivity_def a b)
qed

lemma night_filter:
  "length (filter (\<lambda>t. f t \<in> {23, 0, 1, 2, 3, 4, 5 :: nat}) txs) =
     length (filter (\<lambda>t. f t = 23) txs) + length (filter (\<lambda>t. f t = 0) txs) +
     length (filter (\<lambda>t. f t = 1) txs) + length (filter (\<lambda>t. f t = 2) txs) +
     length (filter (\<lambda>t. f t = 3) txs) + length (filter (\<lambda>t. f t = 4) txs) +
     length (filter (\<lambda>t. f t = 5) txs)"
  by (induction txs) auto

lemma night_hours: "(hourOfDay e t = 23 \<or> hourOfDay e t < 6) = (getHours e t \<in> {23, 0, 1, 2, 3, 4, 5})"
proof -
  have h: "hourOfDay e t = int (getHours e t)" by (simp add: getHours_hourOfDay)
  have "(int g = 23 \<or> int g < 6) = (g = 23 \<or> g = 0 \<or> g = 1 \<or> g = 2 \<or> g = 3 \<or> g = 4 \<or> g = 5)"
    for g :: nat by presburger
  then show ?thesis unfolding h by simp
qed

lemma tally_night:
  "totalNightActivity (fst (tally e (replicate 24 0) [] txs)) = nightCount e txs"
proof -
  have l: "length (replicate 24 (0::nat)) = 24" by simp
  note th = tally_hours[OF l, of e "[]" txs]
  from th have len: "length (fst (tally e (replicate 24 0) [] txs)) = 24" by simp
  from th have nth: "\<And>i. i < 24 \<Longrightarrow> fst (tally e (replicate 24 0) [] txs) ! i =
      length (filter (\<lambda>t. getHours e (t_createdAt t) = i) txs)" by simp
  show ?thesis
    unfolding night_slices[OF len] nightCount_def night_hours night_filter by (simp add: nth)
qed

text \<open>
  What the object \<open>userActivity\<close> holds after the loop: a number under a key exactly for
  the actors that are neither \<open>__proto__\<close> nor the name of a function of
  \<open>Object.prototype\<close>, and then the number of their transactions.
\<close>

lemma bumpUser_map_fst:
  "map fst (bumpUser u m) =
     (if u \<in> set (map fst m) \<or> u = ''__proto__'' then map fst m else map fst m @ [u])"
  by (induction m) (force simp: image_iff)+

lemma bumpUser_distinct: "distinct (map fst m) \<Longrightarrow> distinct (map fst (bumpUser u m))"
  unfolding bumpUser_map_fst by simp

lemma bumpUser_ownOk: "list_all ownOk m \<Longrightarrow> list_all ownOk (bumpUser u m)"
  by (induction m) (auto simp: ownOk_def split: jsValue.splits if_splits)

lemma bumpUser_wellFormed: "wellFormed m \<Longrightarrow> wellFormed (bumpUser u m)"
  by (simp add: wellFormed_def bumpUser_distinct bumpUser_ownOk)

lemma bumpUser_countOf:
  "list_all ownOk m \<Longrightarrow>
   countOf (bumpUser u m) k =
     countOf m k + (if k = u \<and> u \<noteq> ''__proto__'' \<and> u \<notin> set prototypeFunctions then 1 else 0)"
  by (induction m) (auto simp: countOf_def ownOk_def split: jsValue.splits if_splits)

lemma tally_users:
  assumes "wellFormed u"
  shows "wellFormed (snd (tally e h u txs)) \<and>
         (\<forall>k. countOf (snd (tally e h u txs)) k =
                countOf u k + (if k \<noteq> ''__proto__'' \<and> k \<notin> set prototypeFunctions
                               then length (filter (\<lambda>t. actorOf t = k) txs) else 0))"
  using assms
proof (induction txs arbitrary: h u)
  case Nil
  then show ?case by simp
next
  case (Cons tr rest)
  have wf: "wellFormed (bumpUser (actorOf tr) u)" using Cons.prems by (rule bumpUser_wellFormed)
  have ok: "list_all ownOk u" using Cons.prems by (simp add: wellFormed_def)
  show ?case
    using Cons.IH[OF wf] by (auto simp: Let_def bumpUser_countOf[OF ok])
qed

lemma wellFormed_mem:
  assumes "wellFormed m"
  shows "((k, v) \<in> set m \<and> greaterThan10 v) = (v = Num (countOf m k) \<and> 10 < countOf m k)"
proof
  assume a: "(k, v) \<in> set m \<and> greaterThan10 v"
  then obtain n where n: "v = Num n" "10 < n" by (cases v) auto
  have "map_of m k = Some v" using a assms by (simp add: wellFormed_def)
  then show "v = Num (countOf m k) \<and> 10 < countOf m k" using n by (simp add: countOf_def)
next
  assume a: "v = Num (countOf m k) \<and> 10 < countOf m k"
  then have "map_of m k = Some v"
    by (auto simp: countOf_def split: option.splits jsValue.splits)
  then show "(k, v) \<in> set m \<and> greaterThan10 v" using a by (auto dest: map_of_SomeD)
qed

lemma actorOf_cases:
  "(actorOf t = k) =
     (k \<noteq> [] \<and> (t_userId t = Some k \<or>
        (k = ''unknown'' \<and> (t_userId t = None \<or> t_userId t = Some []))))"
  by (cases "t_userId t") (auto simp: actorOf_def)

lemma length_filter_disjoint:
  "(\<And>x. \<not> (P x \<and> Q x)) \<Longrightarrow>
   length (filter (\<lambda>x. P x \<or> Q x) xs) = length (filter P xs) + length (filter Q xs)"
  by (induction xs) auto

lemma actorOf_count:
  "length (filter (\<lambda>t. actorOf t = k) txs) =
     (if k = [] then 0 else actorCount k txs + (if k = ''unknown'' then anonymousCount txs else 0))"
proof (cases "k = []")
  case True
  then show ?thesis by (simp add: actorOf_cases)
next
  case False
  show ?thesis
  proof (cases "k = ''unknown''")
    case True
    have "length (filter (\<lambda>t. t_userId t = Some ''unknown'' \<or> (t_userId t = None \<or> t_userId t = Some [])) txs)
          = actorCount ''unknown'' txs + anonymousCount txs"
      unfolding actorCount_def anonymousCount_def by (rule length_filter_disjoint) auto
    then show ?thesis using True by (simp add: actorOf_cases)
  next
    case notUnknown: False
    then show ?thesis using False by (simp add: actorOf_cases actorCount_def)
  qed
qed

lemma set_Object_entries: "set (Object_entries obj) = set obj"
  by (auto simp: Object_entries_def)

lemma unusualPatternsOf_unfold:
  "unusualPatternsOf e txs =
     (if 2 < totalNightActivity (fst (tally e (replicate 24 0) [] txs))
      then [AfterHoursAccess (totalNightActivity (fst (tally e (replicate 24 0) [] txs)))] else []) @
     map (\<lambda>x. ExcessiveUserActivity (fst x) (snd x))
       (filter (\<lambda>x. greaterThan10 (snd x) \<and> fst x \<noteq> ''system'')
          (Object_entries (snd (tally e (replicate 24 0) [] txs))))"
  by (simp add: unusualPatternsOf_def Let_def case_prod_unfold)

lemma patterns_after_hours:
  "(AfterHoursAccess n \<in> set (unusualPatternsOf e txs)) = (n = nightCount e txs \<and> 2 < nightCount e txs)"
  unfolding unusualPatternsOf_unfold tally_night by auto

lemma patterns_excessive:
  "(ExcessiveUserActivity u v \<in> set (unusualPatternsOf e txs)) =
     (u \<noteq> ''system'' \<and> u \<noteq> ''__proto__'' \<and> u \<notin> set prototypeFunctions \<and> u \<noteq> [] \<and>
      v = Num (actorCount u txs + (if u = ''unknown'' then anonymousCount txs else 0)) \<and>
      10 < actorCount u txs + (if u = ''unknown'' then anonymousCount txs else 0))"
proof -
  let ?obj = "snd (tally e (replicate 24 0) [] txs)"
  have wf0: "wellFormed []" by (simp add: wellFormed_def)
  note t = tally_users[OF wf0, of e "replicate 24 0" txs]
  have wf: "wellFormed ?obj" using t by simp
  have cnt: "countOf ?obj u = (if u \<noteq> ''__proto__'' \<and> u \<notin> set prototypeFunctions
       then length (filter (\<lambda>t. actorOf t = u) txs) else 0)"
    using t by (simp add: countOf_def)
  have "(ExcessiveUserActivity u v \<in> set (unusualPatternsOf e txs)) =
        (((u, v) \<in> set ?obj \<and> greaterThan10 v) \<and> u \<noteq> ''system'')"
    unfolding unusualPatternsOf_unfold by (auto simp: image_iff set_Object_entries)
  also have "\<dots> = ((v = Num (countOf ?obj u) \<and> 10 < countOf ?obj u) \<and> u \<noteq> ''system'')"
    unfolding wellFormed_mem[OF wf] ..
  finally show ?thesis unfolding cnt actorOf_count by auto
qed

lemma patterns_nonempty:
  "(unusualPatternsOf e txs \<noteq> []) =
     (2 < nightCount e txs \<or>
      (\<exists>u. u \<noteq> ''system'' \<and> u \<noteq> ''__proto__'' \<and> u \<notin> set prototypeFunctions \<and> u \<noteq> [] \<and>
           10 < actorCount u txs + (if u = ''unknown'' then anonymousCount txs else 0)))"
proof -
  have "(unusualPatternsOf e txs \<noteq> []) = (\<exists>p. p \<in> set (unusualPatternsOf e txs))"
    by (cases "unusualPatternsOf e txs") auto
  also have "\<dots> = ((\<exists>n. AfterHoursAccess n \<in> set (unusualPatternsOf e txs)) \<or>
                   (\<exists>u v. ExcessiveUserActivity u v \<in> set (unusualPatternsOf e txs)))"
    by (metis pattern.exhaust)
  also have "\<dots> = (2 < nightCount e txs \<or>
      (\<exists>u. u \<noteq> ''system'' \<and> u \<noteq> ''__proto__'' \<and> u \<notin> set prototypeFunctions \<and> u \<noteq> [] \<and>
           10 < actorCount u txs + (if u = ''unknown'' then anonymousCount txs else 0)))"
    unfolding patterns_after_hours patterns_excessive by auto
  finally show ?thesis .
qed

lemma detectUnauthorizedAccess_emits:
  "\<exists>em. batch (detectUnauthorizedAccess e s p c) = batch c @ em \<and> length em \<le> 1 \<and>
        list_all (isCandidate ''unauthorized_access_pattern'' (p_id p)) em \<and>
        (em \<noteq> []) = (unusualPatternsOf e (Transaction_find s (p_id p) (e_now e - 7 * dayMs)) \<noteq> [] \<and>
                       \<not> recentAny e s ''unauthorized_access_pattern'' (p_id p) 1)"
  unfolding detectUnauthorizedAccess_def Let_def findOne_recentAny1 push_def logLookup_def
  by (simp add: isCandidate_def)

lemma unauthorized_access_characterised:
  "(\<forall>n. (AfterHoursAccess n \<in> set (unusualPatternsOf e (Transaction_find s (p_id p) (e_now e - 7 * dayMs)))) =
        (n = nightCount e (Transaction_find s (p_id p) (e_now e - 7 * dayMs)) \<and>
         2 < nightCount e (Transaction_find s (p_id p) (e_now e - 7 * dayMs)))) \<and>
   (\<forall>u n. u \<noteq> ''unknown'' \<longrightarrow>
        (ExcessiveUserActivity u (Num n) \<in> set (unusualPatternsOf e (Transaction_find s (p_id p) (e_now e - 7 * dayMs)))) =
        (u \<noteq> ''system'' \<and> u \<noteq> ''__proto__'' \<and> u \<notin> set prototypeFunctions \<and> u \<noteq> [] \<and>
         n = actorCount u (Transaction_find s (p_id p) (e_now e - 7 * dayMs)) \<and> 10 < n)) \<and>
   (\<forall>u str. ExcessiveUserActivity u (Str str) \<notin> set (unusualPatternsOf e (Transaction_find s (p_id p) (e_now e - 7 * dayMs)))) \<and>
   (\<exists>em. batch (detectUnauthorizedAccess e s p c) = batch c @ em \<and> length em \<le> 1 \<and>
        list_all (isCandidate ''unauthorized_access_pattern'' (p_id p)) em \<and>
        (em \<noteq> []) =
          (unusualPatternsOf e (Transaction_find s (p_id p) (e_now e - 7 * dayMs)) \<noteq> [] \<and>
           \<not> recentAny e s ''unauthorized_access_pattern'' (p_id p) 1))"
  using detectUnauthorizedAccess_emits[of e s p c]
  by (auto simp: patterns_after_hours patterns_excessive)

lemma night_example:
  "nightCount exEnv (Transaction_find exNightStore 1 (e_now exEnv - 7 * dayMs)) = 3 \<and>
   map c_type (batch (detectUnauthorizedAccess exEnv exNightStore exProduct exCtx)) =
     [''unauthorized_access_pattern'']"
proof -
  have n: "nightCount exEnv (Transaction_find exNightStore 1 (e_now exEnv - 7 * dayMs)) = 3"
    by code_simp
  have q: "p_id exProduct = 1" by (simp add: exProduct_def)
  have r: "\<not> recentAny exEnv exNightStore ''unauthorized_access_pattern'' 1 1"
    by (simp add: recentAny_def exNightStore_def exStore_def)
  have b: "batch exCtx = []" by (simp add: exCtx_def)
  have ne: "unusualPatternsOf exEnv (Transaction_find exNightStore 1 (e_now exEnv - 7 * dayMs)) \<noteq> []"
    unfolding patterns_nonempty n by simp
  obtain em where em: "batch (detectUnauthorizedAccess exEnv exNightStore exProduct exCtx) = em"
    "length em \<le> 1" "list_all (isCandidate ''unauthorized_access_pattern'' 1) em" "em \<noteq> []"
    using detectUnauthorizedAccess_emits [of exEnv exNightStore exProduct exCtx]
    unfolding q b using r ne by auto
  then obtain c where "em = [c]" by (cases em) auto
  then have "map c_type em = [''unauthorized_access_pattern'']"
    using em(3) by (simp add: isCandidate_def)
  then show ?thesis using n em(1) by simp
qed

text \<open>
  Claim C8. Eleven transactions of one product within the week, all by the actor
  \<open>constructor\<close>, none at night: the actor is not \<open>system\<close> and has more than 10
  transactions, yet the detector flags nothing and adds no candidate. The counter of
  that actor starts from the function inherited under the key, becomes a string, and
  \<open>count > 10\<close> is false for it. For the other actors and for the after-hours rule the
  detector does what the claim says (\<open>unauthorized_access_characterised\<close>).
\<close>

theorem inherited_key_actor_not_flagged:
  "actorCount ''constructor'' (Transaction_find exConstructorStore 1 (e_now exEnv - 7 * dayMs)) = 11 \<and>
   snd (tally exEnv (replicate 24 0) [] (Transaction_find exConstructorStore 1 (e_now exEnv - 7 * dayMs))) =
     [(''constructor'', Str ''function Object() { [native code] }11111111111'')] \<and>
   unusualPatternsOf exEnv (Transaction_find exConstructorStore 1 (e_now exEnv - 7 * dayMs)) = [] \<and>
   detectUnauthorizedAccess exEnv exConstructorStore exProduct exCtx = exCtx"
  by code_simp

subsection \<open>Two passes in succession\<close>

lemma findOne_open:
  "(Anomaly_findOne s \<lparr> f_productId = Some pid, f_type = ty, f_resolved = Some False,
       f_createdAtGte = None \<rparr> = None) = (openCount s ty pid = 0)"
  by (auto simp: Anomaly_findOne_def find_None_iff openCount_def matchesAnomaly_def filter_empty_conv)

lemma count_appended:
  assumes "batch c' = batch c @ em" "length em \<le> 1" "list_all (isCandidate ty pid) em"
    "(em \<noteq> []) = cond"
  shows "candidateCount ty' pid' (batch c') =
           candidateCount ty' pid' (batch c) + (if cond \<and> ty' = ty \<and> pid' = pid then 1 else 0)"
proof (cases em)
  case Nil
  then show ?thesis using assms by (simp add: candidateCount_def)
next
  case (Cons x xs)
  then have "em = [x]" using assms(2) by simp
  then show ?thesis using assms by (auto simp: candidateCount_def isCandidate_def)
qed

lemma detectLowStock_appends:
  "\<exists>em. batch (detectLowStock s p c) = batch c @ em \<and> length em \<le> 1 \<and>
        list_all (isCandidate ''low_stock'' (p_id p)) em \<and>
        (em \<noteq> []) = (due e p ''low_stock'' \<and> openCount s ''low_stock'' (p_id p) = 0)"
  unfolding detectLowStock_def Let_def findOne_open push_def logLookup_def
  by (simp add: isCandidate_def due_def)

lemma detectExpiryWarnings_appends:
  "\<exists>em. batch (detectExpiryWarnings e s p c) = batch c @ em \<and> length em \<le> 1 \<and>
        list_all (isCandidate ''expiry_warning'' (p_id p)) em \<and>
        (em \<noteq> []) = (due e p ''expiry_warning'' \<and> openCount s ''expiry_warning'' (p_id p) = 0)"
  unfolding detectExpiryWarnings_def Let_def findOne_open push_def logLookup_def
  by (simp add: isCandidate_def due_def split: option.splits)

lemma detectPotentialTheft_appends:
  "\<exists>em. batch (detectPotentialTheft e s p c) = batch c @ em \<and> length em \<le> 1 \<and>
        list_all (isCandidate ''potential_theft'' (p_id p)) em \<and> (em \<noteq> []) = (em \<noteq> [])"
  unfolding detectPotentialTheft_def Let_def push_def logLookup_def
  by (simp add: isCandidate_def)

lemma detectShrinkagePatterns_appends:
  "\<exists>em. batch (detectShrinkagePatterns e s p c) = batch c @ em \<and> length em \<le> 1 \<and>
        list_all (isCandidate ''inventory_shrinkage'' (p_id p)) em \<and> (em \<noteq> []) = (em \<noteq> [])"
  unfolding detectShrinkagePatterns_def Let_def push_def logLookup_def
  by (simp add: isCandidate_def)

lemma detectUnauthorizedAccess_appends:
  "\<exists>em. batch (detectUnauthorizedAccess e s p c) = batch c @ em \<and> length em \<le> 1 \<and>
        list_all (isCandidate ''unauthorized_access_pattern'' (p_id p)) em \<and> (em \<noteq> []) = (em \<noteq> [])"
  unfolding detectUnauthorizedAccess_def Let_def push_def logLookup_def
  by (simp add: isCandidate_def)

lemma count_detectLowStock:
  "candidateCount ty pid (batch (detectLowStock s p c)) =
     candidateCount ty pid (batch c) +
     (if (due e p ''low_stock'' \<and> openCount s ''low_stock'' (p_id p) = 0) \<and> ty = ''low_stock'' \<and> pid = p_id p
      then 1 else 0)"
proof -
  obtain em where "batch (detectLowStock s p c) = batch c @ em" "length em \<le> 1"
    "list_all (isCandidate ''low_stock'' (p_id p)) em"
    "(em \<noteq> []) = (due e p ''low_stock'' \<and> openCount s ''low_stock'' (p_id p) = 0)"
    using detectLowStock_appends by blast
  then show ?thesis by (rule count_appended)
qed

lemma count_detectExpiryWarnings:
  "candidateCount ty pid (batch (detectExpiryWarnings e s p c)) =
     candidateCount ty pid (batch c) +
     (if (due e p ''expiry_warning'' \<and> openCount s ''expiry_warning'' (p_id p) = 0) \<and>
         ty = ''expiry_warning'' \<and> pid = p_id p
      then 1 else 0)"
proof -
  obtain em where "batch (detectExpiryWarnings e s p c) = batch c @ em" "length em \<le> 1"
    "list_all (isCandidate ''expiry_warning'' (p_id p)) em"
    "(em \<noteq> []) = (due e p ''expiry_warning'' \<and> openCount s ''expiry_warning'' (p_id p) = 0)"
    using detectExpiryWarnings_appends by blast
  then show ?thesis by (rule count_appended)
qed

lemma count_other:
  assumes "\<exists>em. batch c' = batch c @ em \<and> length em \<le> 1 \<and> list_all (isCandidate ty' pid') em \<and>
             (em \<noteq> []) = (em \<noteq> [])"
    and "ty \<noteq> ty'"
  shows "candidateCount ty pid (batch c') = candidateCount ty pid (batch c)"
proof -
  obtain em where em: "batch c' = batch c @ em" "length em \<le> 1" "list_all (isCandidate ty' pid') em"
    "(em \<noteq> []) = (em \<noteq> [])"
    using assms(1) by blast
  show ?thesis using count_appended[OF em, of ty pid] assms(2) by simp
qed

lemma count_detectProduct:
  assumes "ty = ''low_stock'' \<or> ty = ''expiry_warning''"
  shows "candidateCount ty pid (batch (detectProduct e s p c)) =
           candidateCount ty pid (batch c) +
           (if pid = p_id p \<and> due e p ty \<and> openCount s ty pid = 0 then 1 else 0)"
proof -
  have a: "candidateCount ty pid (batch (detectProduct e s p c)) =
        candidateCount ty pid (batch (detectExpiryWarnings e s p (detectLowStock s p c)))"
    unfolding detectProduct_def using assms
    by (auto simp: count_other[OF detectUnauthorizedAccess_appends]
        count_other[OF detectShrinkagePatterns_appends] count_other[OF detectPotentialTheft_appends])
  show ?thesis unfolding a count_detectExpiryWarnings count_detectLowStock[where e = e]
    using assms by auto
qed

lemma count_products:
  assumes "ty = ''low_stock'' \<or> ty = ''expiry_warning''"
  shows "candidateCount ty pid (batch (foldl (\<lambda>c product. detectProduct e s product c) c ps)) =
           candidateCount ty pid (batch c) +
           length (filter (\<lambda>p. pid = p_id p \<and> due e p ty \<and> openCount s ty pid = 0) ps)"
  by (induction ps arbitrary: c) (simp_all add: count_detectProduct[OF assms])

lemma distinct_filter_id:
  "distinct (map p_id ps) \<Longrightarrow> length (filter (\<lambda>p. pid = p_id p \<and> Q p) ps) \<le> 1"
proof (induction ps)
  case Nil
  then show ?case by simp
next
  case (Cons p ps)
  show ?case
  proof (cases "pid = p_id p")
    case True
    have "p_id p \<notin> set (map p_id ps)"
      using Cons.prems by simp
    then have "\<forall>q \<in> set ps. p_id q \<noteq> pid"
      unfolding True by (fastforce simp: image_iff)
    then have "filter (\<lambda>p. pid = p_id p \<and> Q p) ps = []"
      by (auto simp: filter_empty_conv)
    then show ?thesis using True by simp
  next
    case False
    then show ?thesis using Cons by simp
  qed
qed

lemma count_systemwide:
  "candidateCount ty pid (batch (detectSystemwideTheftPatterns e s c)) = candidateCount ty pid (batch c)"
  by (simp add: detectSystemwideTheftPatterns_def Let_def push_def candidateCount_def isCandidate_def)

lemma count_runDetectors:
  assumes "ty = ''low_stock'' \<or> ty = ''expiry_warning''"
  shows "candidateCount ty pid (batch (runDetectors e s)) =
           length (filter (\<lambda>p. pid = p_id p \<and> due e p ty \<and> openCount s ty pid = 0) (products s))"
  unfolding runDetectors_def count_systemwide count_products[OF assms]
  by (simp add: candidateCount_def)

lemma count_runDetectors_le:
  assumes "ty = ''low_stock'' \<or> ty = ''expiry_warning''" "distinct (map p_id (products s))"
  shows "candidateCount ty pid (batch (runDetectors e s)) \<le> (if openCount s ty pid = 0 then 1 else 0)"
proof (cases "openCount s ty pid = 0")
  case True
  then show ?thesis
    unfolding count_runDetectors[OF assms(1)] using distinct_filter_id[OF assms(2)] by simp
next
  case False
  then show ?thesis unfolding count_runDetectors[OF assms(1)] by simp
qed

lemma openCount_inserted:
  "length (filter (\<lambda>a. a_productId a = Some pid \<and> a_type a = ty \<and> \<not> a_resolved a)
      (map (\<lambda>(i, c). newAnomaly now (k + i) c) (enumerate n docs))) = candidateCount ty pid docs"
  by (induction docs arbitrary: n) (auto simp: candidateCount_def isCandidate_def newAnomaly_def)

lemma insertMany_openCount:
  assumes "Anomaly_insertMany now docs s = Inr s'"
  shows "openCount s' ty pid = openCount s ty pid + candidateCount ty pid docs \<and> products s' = products s"
proof -
  have s': "s' = s\<lparr> anomalies := anomalies s @
      map (\<lambda>(i, c). newAnomaly now (length (anomalies s) + i) c) (enumerate 0 docs) \<rparr>"
    using assms by (simp add: Anomaly_insertMany_def split: if_splits)
  show ?thesis
    unfolding s' openCount_def
    by (simp add: openCount_inserted del: length_filter_map)
qed

lemma detectAnomalies_cases:
  assumes "detectAnomalies e s = (r, s')"
  shows "(r = [] \<and> s' = s) \<or>
         (r = batch (runDetectors e s) \<and> Anomaly_insertMany (e_now e) r s = Inr s')"
  using assms by (auto simp: detectAnomalies_def Let_def split: sum.splits if_splits)

lemma detectAnomalies_step:
  assumes "detectAnomalies e s = (r, s')" "ty = ''low_stock'' \<or> ty = ''expiry_warning''"
    "distinct (map p_id (products s))"
  shows "products s' = products s \<and>
         candidateCount ty pid r \<le> (if openCount s ty pid = 0 then 1 else 0) \<and>
         openCount s' ty pid \<le> openCount s ty pid + candidateCount ty pid r"
  using detectAnomalies_cases[OF assms(1)] count_runDetectors_le[OF assms(2,3), of pid e]
    insertMany_openCount[of "e_now e" r s s' ty pid]
  by (auto simp: candidateCount_def)

text \<open>
  Claim C9, amended. Two detection passes in succession create no duplicate, on a store
  whose product ids are distinct: for \<open>low_stock\<close> and for \<open>expiry_warning\<close>, the number of
  unresolved anomalies of a product after the second pass is at most the larger of 1 and
  the number before the first pass, hence at most one where it was at most one; the
  second pass returns at most one candidate of the type for the product, and none when
  the store holds an unresolved one after the first pass.
\<close>

theorem detection_idempotent:
  assumes "distinct (map p_id (products s))"
    and "ty = ''low_stock'' \<or> ty = ''expiry_warning''"
    and "detectAnomalies e1 s = (r1, s1)"
    and "detectAnomalies e2 s1 = (r2, s2)"
  shows "openCount s2 ty pid \<le> max 1 (openCount s ty pid) \<and>
         (openCount s ty pid \<le> 1 \<longrightarrow> openCount s2 ty pid \<le> 1) \<and>
         candidateCount ty pid r2 \<le> 1 \<and>
         (0 < openCount s1 ty pid \<longrightarrow> candidateCount ty pid r2 = 0)"
proof -
  note st1 = detectAnomalies_step[OF assms(3) assms(2) assms(1), of pid]
  then have d1: "distinct (map p_id (products s1))" using assms(1) by simp
  note st2 = detectAnomalies_step[OF assms(4) assms(2) d1, of pid]
  show ?thesis using st1 st2 by (auto split: if_splits)
qed

theorem detection_idempotent_witness:
  "distinct (map p_id (products exStore)) \<and>
   openCount exStore ''low_stock'' 1 = 0 \<and>
   openCount (snd (detectAnomalies exEnv exStore)) ''low_stock'' 1 = 1 \<and>
   openCount (snd (detectAnomalies exEnv (snd (detectAnomalies exEnv exStore)))) ''low_stock'' 1 \<le> 1 \<and>
   candidateCount ''low_stock'' 1 (fst (detectAnomalies exEnv (snd (detectAnomalies exEnv exStore)))) = 0"
proof -
  have d: "distinct (map p_id (products exStore))" by (simp add: exStore_def)
  have o0: "openCount exStore ''low_stock'' 1 = 0" by (simp add: openCount_def exStore_def)
  have o1: "openCount (snd (detectAnomalies exEnv exStore)) ''low_stock'' 1 = 1" by code_simp
  note th = detection_idempotent [OF d disjI1 [OF refl] surjective_pairing surjective_pairing,
      where pid = 1 and ?e1.0 = exEnv and ?e2.0 = exEnv]
  show ?thesis using th d o0 o1 by simp
qed

text \<open>
  A store that already holds two unresolved \<open>low_stock\<close> anomalies of a product (two
  overlapping passes leave it so) still holds two after two passes.
\<close>

theorem duplicates_survive:
  "distinct (map p_id (products exDuplicateStore)) \<and>
   openCount exDuplicateStore ''low_stock'' 1 = 2 \<and>
   openCount (snd (detectAnomalies exEnv (snd (detectAnomalies exEnv exDuplicateStore)))) ''low_stock'' 1 = 2 \<and>
   \<not> openCount (snd (detectAnomalies exEnv (snd (detectAnomalies exEnv exDuplicateStore)))) ''low_stock'' 1 \<le> 1"
  by code_simp

subsection \<open>Persisting the batch\<close>

lemma systemwide_pushes:
  assumes "3 \<le> length (suspiciousActivityOf e s)"
  shows "\<exists>c. c \<in> set (batch (runDetectors e s)) \<and> c_type c = ''organized_theft_pattern'' \<and>
             c_productId c = None"
proof -
  have "list_ex (\<lambda>c. c_type c = ''organized_theft_pattern'' \<and> c_productId c = None)
          (batch (runDetectors e s))"
    using assms
    by (simp add: runDetectors_def detectSystemwideTheftPatterns_def Let_def push_def)
  then show ?thesis by (auto simp: list_ex_iff)
qed

lemma unsupported_candidate_invalid:
  "c_type c = ''inventory_shrinkage'' \<or> c_type c = ''organized_theft_pattern'' \<or> c_productId c = None
   \<Longrightarrow> \<not> validateAnomaly c"
  by (auto simp: validateAnomaly_def anomalyTypes_def)

lemma insertMany_rejects:
  "c \<in> set docs \<Longrightarrow> \<not> validateAnomaly c \<Longrightarrow> Anomaly_insertMany now docs s = Inl ValidationError"
  by (auto simp: Anomaly_insertMany_def list_all_iff)

lemma detectAnomalies_loses_batch:
  assumes "c \<in> set (batch (runDetectors e s))"
    and "c_type c = ''inventory_shrinkage'' \<or> c_type c = ''organized_theft_pattern''"
  shows "Anomaly_insertMany (e_now e) (batch (runDetectors e s)) s = Inl ValidationError \<and>
         detectAnomalies e s = ([], s)"
proof -
  have "\<not> validateAnomaly c" using assms(2) by (auto simp: validateAnomaly_def anomalyTypes_def)
  then have "Anomaly_insertMany (e_now e) (batch (runDetectors e s)) s = Inl ValidationError"
    using assms(1) by (rule insertMany_rejects[rotated])
  moreover have "batch (runDetectors e s) \<noteq> []" using assms(1) by auto
  ultimately show ?thesis by (simp add: detectAnomalies_def Let_def)
qed

text \<open>
  Claim C1. The anomaly schema lists eight types, without \<open>inventory_shrinkage\<close> and
  \<open>organized_theft_pattern\<close>, and requires a productId. In a store where three
  high-value products show a discrepancy, the pass builds a batch with a \<open>low_stock\<close>
  candidate and the system-wide \<open>organized_theft_pattern\<close> candidate; the bulk write is
  rejected, nothing is stored and the pass returns the empty array.
\<close>

theorem organized_theft_batch_rejected:
  "candidateCount ''low_stock'' 1 (batch (runDetectors exEnv exRingStore)) = 1 \<and>
   list_ex (\<lambda>c. c_type c = ''organized_theft_pattern'') (batch (runDetectors exEnv exRingStore)) \<and>
   Anomaly_insertMany (e_now exEnv) (batch (runDetectors exEnv exRingStore)) exRingStore =
     Inl ValidationError \<and>
   detectAnomalies exEnv exRingStore = ([], exRingStore)"
proof -
  have n: "3 \<le> length (suspiciousActivityOf exEnv exRingStore)" by code_simp
  obtain c where c: "c \<in> set (batch (runDetectors exEnv exRingStore))"
    "c_type c = ''organized_theft_pattern''"
    using systemwide_pushes[OF n] by blast
  have low: "candidateCount ''low_stock'' 1 (batch (runDetectors exEnv exRingStore)) = 1"
    unfolding count_runDetectors[OF disjI1[OF refl]] by code_simp
  have ex: "list_ex (\<lambda>c. c_type c = ''organized_theft_pattern'') (batch (runDetectors exEnv exRingStore))"
    using c by (auto simp: list_ex_iff)
  show ?thesis using low ex detectAnomalies_loses_batch[OF c(1) disjI2[OF c(2)]] by simp
qed

section \<open>Properties of the alert generator\<close>

text \<open>
  What one anomaly contributes to the array of alerts depends on the stored alerts of
  its product only: nothing when a security alert of the last two hours is stored, one
  alert otherwise, whatever the anomaly's \<open>resolved\<close> flag.
\<close>

lemma existing_alert_suppresses:
  "Alert_findOne s (map_option p_id (populate s a)) (e_now e - 2 * 60 * 60 * 1000) \<noteq> None \<Longrightarrow>
   alertOf e s a = []"
  by (simp add: alertOf_def Let_def)

lemma alertOf_ignores_resolved: "alertOf e s (a\<lparr> a_resolved := r \<rparr>) = alertOf e s a"
  by (simp add: alertOf_def populate_def Let_def split: option.splits)

lemma alertOf_reads_store_only:
  "Alert_findOne s (map_option p_id (populate s a)) (e_now e - 2 * 60 * 60 * 1000) = None \<Longrightarrow>
   length (alertOf e s a) = 1"
  by (simp add: alertOf_def Let_def)

text \<open>
  Claim C4. With two unresolved anomalies of one product and no stored alert, one pass
  of the alert generator inserts two security alerts for that product, both created at
  the same instant: the lookup for an existing alert reads the store, never the array
  the loop is filling.
\<close>

theorem two_alerts_for_one_product:
  "alerts exTwoAnomalies = [] \<and>
   map a_productId (anomalies exTwoAnomalies) = [Some 1, Some 1] \<and>
   map al_productId (fst (generateTheftAlerts exEnv exTwoAnomalies)) = [Some 1, Some 1] \<and>
   map al_type (alerts (snd (generateTheftAlerts exEnv exTwoAnomalies))) = [''security'', ''security''] \<and>
   map al_productId (alerts (snd (generateTheftAlerts exEnv exTwoAnomalies))) = [Some 1, Some 1] \<and>
   map al_createdAt (alerts (snd (generateTheftAlerts exEnv exTwoAnomalies))) = [e_now exEnv, e_now exEnv]"
  by code_simp

text \<open>
  Claim C5. The only anomaly in the store is resolved; the alert generator still makes
  an alert from it and stores it. Its query does not filter on \<open>resolved\<close>.
\<close>

theorem resolved_anomaly_alerted:
  "list_all a_resolved (anomalies exResolvedOnly) \<and>
   map al_message (fst (generateTheftAlerts exEnv exResolvedOnly)) =
     [''Soap Bar: Stock critically low: 10 units remaining''] \<and>
   length (alerts (snd (generateTheftAlerts exEnv exResolvedOnly))) = 1"
  by code_simp

end
